theory Spec2Isabelle
  imports Complex_Main
begin

section \<open>Time\<close>

text \<open>
  A naive \<^verbatim>\<open>datetime\<close> (Python) or a \<^verbatim>\<open>pl.Datetime\<close> cell (polars) is an instant on a
  wall clock with no zone attached. polars stores it as a signed count of ticks since
  1970-01-01 00:00:00 and compares, sorts and subtracts these counts; Python's
  \<^verbatim>\<open>datetime\<close> has a resolution of one microsecond. A datetime is therefore the number
  of microseconds since 1970-01-01 00:00:00 on its clock, and a \<^verbatim>\<open>timedelta\<close> is a number
  of microseconds.
\<close>

type_synonym datetime = int
type_synonym timedelta = int

definition us_per_second :: int where
  "us_per_second = 1000000"

definition us_per_minute :: int where
  "us_per_minute = 60 * us_per_second"

definition us_per_day :: int where
  "us_per_day = 86400 * us_per_second"

text \<open>\<^verbatim>\<open>datetime.timedelta(days=n)\<close> and \<^verbatim>\<open>datetime.timedelta(minutes=n)\<close>.\<close>

definition timedelta_days :: "int \<Rightarrow> timedelta" where
  "timedelta_days n = n * us_per_day"

definition timedelta_minutes :: "int \<Rightarrow> timedelta" where
  "timedelta_minutes n = n * us_per_minute"

text \<open>The fields \<^verbatim>\<open>.minute\<close> and \<^verbatim>\<open>.microsecond\<close> of a datetime, and midnight of its date.\<close>

definition dt_minute :: "datetime \<Rightarrow> int" where
  "dt_minute t = (t div us_per_minute) mod 60"

definition dt_microsecond :: "datetime \<Rightarrow> int" where
  "dt_microsecond t = t mod us_per_second"

definition dt_midnight :: "datetime \<Rightarrow> datetime" where
  "dt_midnight t = t - t mod us_per_day"

text \<open>
  \<^verbatim>\<open>t.replace(hour=h, minute=m, second=s)\<close> keeps the date and the microsecond of \<open>t\<close>;
  \<^verbatim>\<open>t.replace(hour=h, minute=m, second=s, microsecond=u)\<close> keeps the date only.
\<close>

definition replace_hms :: "datetime \<Rightarrow> int \<Rightarrow> int \<Rightarrow> int \<Rightarrow> datetime" where
  "replace_hms t h m s =
     dt_midnight t + ((h * 60 + m) * 60 + s) * us_per_second + dt_microsecond t"

definition replace_hmsu :: "datetime \<Rightarrow> int \<Rightarrow> int \<Rightarrow> int \<Rightarrow> int \<Rightarrow> datetime" where
  "replace_hmsu t h m s u =
     dt_midnight t + ((h * 60 + m) * 60 + s) * us_per_second + u"

section \<open>The merged series\<close>

text \<open>
  One row of the frame that \<^verbatim>\<open>make_weather_df\<close> returns. A null cell is \<open>None\<close>. Both
  readers keep a row only when a comparison on its timestamp holds, and a comparison with
  null does not hold, so \<open>DATE\<close> is never null in the merged series; Float64 cells are
  read as real numbers.
\<close>

record weather_row =
  DATE :: datetime
  TEMP :: "real option"
  DEWPOINT :: "real option"
  WIND_SPEED :: "real option"
  WIND_DIRECTION :: "real option"
  GUST_SPEED :: "real option"
  RAIN_HOURLY :: "real option"
  RAIN_DAILIY :: "real option"
  RAIN_EVENT :: "real option"
  PRECIP_PROB :: "int option"
  PREDICTION :: "bool option"

text \<open>A row with a timestamp and every other cell null, from which examples are built.\<close>

definition null_row :: "datetime \<Rightarrow> weather_row" where
  "null_row t =
     \<lparr>DATE = t, TEMP = None, DEWPOINT = None, WIND_SPEED = None, WIND_DIRECTION = None,
      GUST_SPEED = None, RAIN_HOURLY = None, RAIN_DAILIY = None, RAIN_EVENT = None,
      PRECIP_PROB = None, PREDICTION = None\<rparr>"

section \<open>WindowFilter: \<^verbatim>\<open>filter_weather_df_by_date\<close>\<close>

text \<open>
  \<^verbatim>\<open>filter_weather_df_by_date(weather_df, plot_start_date, plot_end_date)\<close> on a frame
  whose \<open>DATE\<close> column is temporal (the string branch is not taken). \<open>now\<close> is the
  reading of \<^verbatim>\<open>datetime.datetime.now()\<close>, the local wall clock; the source reads the clock
  once for each missing bound, and the two readings are taken to be the same instant.
\<close>

definition default_plot_start_date :: "datetime \<Rightarrow> datetime" where
  "default_plot_start_date now = replace_hms (now - timedelta_days 1) 0 0 1"

definition default_plot_end_date :: "datetime \<Rightarrow> datetime" where
  "default_plot_end_date now = replace_hmsu (now + timedelta_days 1) 23 59 59 9999"

definition filter_weather_df_by_date ::
  "datetime \<Rightarrow> weather_row list \<Rightarrow> datetime option \<Rightarrow> datetime option \<Rightarrow> weather_row list" where
  "filter_weather_df_by_date now weather_df plot_start_date plot_end_date =
     (let start_date = (case plot_start_date of
                          None \<Rightarrow> default_plot_start_date now
                        | Some s \<Rightarrow> s);
          end_date = (case plot_end_date of
                        None \<Rightarrow> default_plot_end_date now
                      | Some e \<Rightarrow> e)
      in filter (\<lambda>r. DATE r \<ge> start_date \<and> DATE r \<le> end_date) weather_df)"

text \<open>
  The range the specification gives for the default window, written from its words:
  from yesterday at 00:00:01 to tomorrow at 23:59:59.0009, both ends included.
\<close>

definition spec_default_window :: "datetime \<Rightarrow> datetime \<Rightarrow> bool" where
  "spec_default_window now t \<longleftrightarrow>
     dt_midnight now - us_per_day + 1 * us_per_second \<le> t \<and>
     t \<le> dt_midnight now + us_per_day + 86399 * us_per_second + 900"

section \<open>Wind chart: bucket width\<close>

text \<open>
  Lines 729 to 744 of \<^verbatim>\<open>make_wind_fig\<close>. \<open>dates\<close> is the \<open>DATE\<close> column of the filtered
  frame. On an empty column \<^verbatim>\<open>min()\<close> and \<^verbatim>\<open>max()\<close> are \<^verbatim>\<open>None\<close>, the subtraction raises
  and the handler sets 2. \<^verbatim>\<open>delta.total_seconds()\<close> is the microsecond count divided by
  \<open>10^6\<close>; \<^verbatim>\<open>int(x / 60 / 180)\<close> truncates, and \<open>delta\<close> is never negative here, so it is
  the integer quotient of the microsecond count by \<open>60 * 180 * 10^6\<close>.
\<close>

definition col_min :: "int list \<Rightarrow> int option" where
  "col_min xs = (if xs = [] then None else Some (Min (set xs)))"

definition col_max :: "int list \<Rightarrow> int option" where
  "col_max xs = (if xs = [] then None else Some (Max (set xs)))"

definition gb_min_of_delta :: "timedelta \<Rightarrow> int" where
  "gb_min_of_delta delta =
     (if delta > 60 * 15 * us_per_second
      then delta div (60 * 180 * us_per_second)
      else 15)"

definition wind_gb_min :: "datetime list \<Rightarrow> int" where
  "wind_gb_min dates =
     (let gb_min = (case (col_min dates, col_max dates) of
                      (Some plot_start_date, Some plot_end_date) \<Rightarrow>
                        gb_min_of_delta (plot_end_date - plot_start_date)
                    | _ \<Rightarrow> 2)
      in if gb_min < 2 then 2 else gb_min)"

text \<open>
  The width the specification gives, written from its words: the window length in
  seconds, divided by 60 and by 180, truncated, and not less than 2.
\<close>

definition spec_bucket_minutes :: "timedelta \<Rightarrow> int" where
  "spec_bucket_minutes delta = max 2 (delta div us_per_second div 60 div 180)"

section \<open>Ingest: \<^verbatim>\<open>get_dew_point_f\<close>\<close>

text \<open>
  The Magnus formula of \<^verbatim>\<open>get_dew_point_f(t_air_f, rel_humidity)\<close>, with the float
  arithmetic read over the real numbers. \<open>dew_A\<close> and \<open>dew_B\<close> are the locals \<^verbatim>\<open>A\<close> and
  \<^verbatim>\<open>B\<close>. The result is \<open>None\<close> where the source yields no number: the Python division
  by \<^verbatim>\<open>B + t_air_c\<close> raises ZeroDivisionError at zero, \<^verbatim>\<open>np.log\<close> of a value that is not
  positive is \<^verbatim>\<open>-inf\<close> or \<^verbatim>\<open>nan\<close>, and the numpy division by \<^verbatim>\<open>A - alpha\<close> is \<^verbatim>\<open>inf\<close>
  or \<^verbatim>\<open>nan\<close> at zero.
\<close>

definition dew_A :: real where
  "dew_A = 17.27"

definition dew_B :: real where
  "dew_B = 237.7"

definition get_dew_point_f :: "real \<Rightarrow> real \<Rightarrow> real option" where
  "get_dew_point_f t_air_f rel_humidity =
     (let t_air_c = (t_air_f - 32) * 5 / 9;
          A = dew_A;
          B = dew_B
      in if B + t_air_c = 0 \<or> rel_humidity \<le> 0 then None
         else let alpha = ((A * t_air_c) / (B + t_air_c)) + ln (rel_humidity / 100)
              in if A - alpha = 0 then None
                 else let dp_c = (B * alpha) / (A - alpha);
                          dp_f = (dp_c * 9 / 5) + 32
                      in Some dp_f)"

text \<open>
  The quantity \<open>A - alpha\<close> as a function of the two arguments; the dew point in
  degrees Celsius is \<open>A * B\<close> divided by it, less \<open>B\<close>.
\<close>

definition dew_denominator :: "real \<Rightarrow> real \<Rightarrow> real" where
  "dew_denominator t rh = dew_A * dew_B / (dew_B + (t - 32) * 5 / 9) - ln (rh / 100)"

section \<open>Forecast fetch: the description and icon lookup tables\<close>

text \<open>
  The columns of \<^verbatim>\<open>NWS_df\<close> that \<^verbatim>\<open>add_new_forecast_descriptions\<close> and
  \<^verbatim>\<open>add_new_forecast_icons\<close> read. A lookup table is the list of its \<open>(id, text)\<close>
  rows in file order.
\<close>

record nws_row =
  shortForecast :: string
  forecast_descriptions_id :: "int option"
  icon :: string
  icon_id :: "int option"

type_synonym lookup_table = "(int \<times> string) list"

text \<open>
  \<^verbatim>\<open>Series.unique()\<close> keeps one copy of each value; polars leaves the order of the
  result open, and the order of first occurrence is taken here. \<^verbatim>\<open>with_row_count()\<close>
  numbers the rows from 0.
\<close>

definition unique :: "'a list \<Rightarrow> 'a list" where
  "unique xs = rev (remdups (rev xs))"

definition with_row_count :: "'a list \<Rightarrow> (int \<times> 'a) list" where
  "with_row_count xs = zip (map int [0..<length xs]) xs"

text \<open>
  Both functions return whether rows were added and overwrite the table's file; the
  second component of the result is the file's content after the call.
\<close>

definition add_new_forecast_descriptions :: "nws_row list \<Rightarrow> lookup_table \<Rightarrow> bool \<times> lookup_table" where
  "add_new_forecast_descriptions NWS_df forecast_descriptions =
     (let new_texts = unique (map shortForecast
                        (filter (\<lambda>r. forecast_descriptions_id r = None) NWS_df))
      in if length new_texts > 0
         then let max_description_id = (case col_max (map fst forecast_descriptions) of
                                          None \<Rightarrow> 0
                                        | Some m \<Rightarrow> m);
                  new_forecast_descriptions =
                    map (\<lambda>(row_nr, text). (row_nr + max_description_id, text))
                        (with_row_count new_texts)
              in (True, forecast_descriptions @ new_forecast_descriptions)
         else (False, forecast_descriptions))"

definition add_new_forecast_icons :: "nws_row list \<Rightarrow> lookup_table \<Rightarrow> bool \<times> lookup_table" where
  "add_new_forecast_icons NWS_df forecast_icons =
     (let new_texts = unique (map icon (filter (\<lambda>r. icon_id r = None) NWS_df))
      in if length new_texts > 0
         then let max_icon_id = (case col_max (map fst forecast_icons) of
                                   None \<Rightarrow> 0
                                 | Some m \<Rightarrow> m);
                  new_forecast_icons =
                    map (\<lambda>(row_nr, text). (row_nr + max_icon_id, text))
                        (with_row_count new_texts)
              in (True, forecast_icons @ new_forecast_icons)
         else (False, forecast_icons))"

section \<open>Wind chart: buckets and markers\<close>

text \<open>
  An aggregate \<^verbatim>\<open>pl.col(c).max()\<close> over the rows of a group skips the null cells and is
  null when every cell is null. On a Boolean column \<open>False < True\<close>.
\<close>

definition non_null :: "'a option list \<Rightarrow> 'a list" where
  "non_null cells = map the (filter (\<lambda>c. c \<noteq> None) cells)"

definition agg_max :: "('a::linorder) option list \<Rightarrow> 'a option" where
  "agg_max cells = (if non_null cells = [] then None else Some (Max (set (non_null cells))))"

definition agg_min :: "('a::linorder) option list \<Rightarrow> 'a option" where
  "agg_min cells = (if non_null cells = [] then None else Some (Min (set (non_null cells))))"

text \<open>
  \<^verbatim>\<open>scipy.stats.circmean(samples)\<close> with its default range from 0 to \<open>2 * pi\<close>: the angle
  of the sum of the unit vectors of the samples, given by \<^verbatim>\<open>arctan2\<close> in \<open>(-pi, pi]\<close> and
  moved into \<open>[0, 2 * pi)\<close>. The arithmetic is read over the real numbers; the cast to
  Float32 is not modelled.
\<close>

definition radians :: "real \<Rightarrow> real" where
  "radians d = d * pi / 180"

definition degrees :: "real \<Rightarrow> real" where
  "degrees x = x * 180 / pi"

definition arctan2 :: "real \<Rightarrow> real \<Rightarrow> real" where
  "arctan2 y x = Arg (Complex x y)"

definition circmean :: "real list \<Rightarrow> real" where
  "circmean samples =
     (let sin_sum = sum_list (map sin samples);
          cos_sum = sum_list (map cos samples);
          res = arctan2 sin_sum cos_sum
      in if res < 0 then res + 2 * pi else res)"

text \<open>
  The \<open>WIND_DIRECTION\<close> aggregate of one group,
  \<^verbatim>\<open>radians().cast(pl.Float32).apply(lambda x: scipy.stats.circmean(x)).degrees()\<close>. The
  function is applied to the group as a whole. A null cell reaches scipy as \<^verbatim>\<open>nan\<close> and
  makes the result \<^verbatim>\<open>nan\<close>, written \<open>None\<close>.
\<close>

definition agg_wind_direction :: "real option list \<Rightarrow> real option" where
  "agg_wind_direction cells =
     (if None \<in> set cells then None
      else Some (degrees (circmean (map radians (non_null cells)))))"

text \<open>The linear mean of a bucket's directions, which the chart does not use.\<close>

definition linear_mean :: "real list \<Rightarrow> real" where
  "linear_mean xs = sum_list xs / real (length xs)"

text \<open>
  \<^verbatim>\<open>plot_df.sort("DATE").groupby_dynamic(pl.col("DATE"), every=f"{gb_min}m").agg(...)\<close>.
  The windows are \<open>gb_min\<close> minutes wide, closed on the left, aligned to multiples of the
  width, and labelled by their lower bound; only windows that hold a row appear.
\<close>

record wind_bucket =
  bucket_DATE :: datetime
  bucket_WIND_SPEED :: "real option"
  bucket_TEMP :: "real option"
  bucket_PREDICTION :: "bool option"
  bucket_WIND_DIRECTION :: "real option"

definition window_start :: "int \<Rightarrow> datetime \<Rightarrow> datetime" where
  "window_start gb_min t = t - t mod (gb_min * us_per_minute)"

definition groupby_dynamic :: "int \<Rightarrow> weather_row list \<Rightarrow> (datetime \<times> weather_row list) list" where
  "groupby_dynamic gb_min df =
     map (\<lambda>k. (k, filter (\<lambda>r. window_start gb_min (DATE r) = k) df))
         (remdups (map (\<lambda>r. window_start gb_min (DATE r)) df))"

definition wind_agg :: "datetime \<times> weather_row list \<Rightarrow> wind_bucket" where
  "wind_agg g =
     \<lparr>bucket_DATE = fst g,
      bucket_WIND_SPEED = agg_max (map WIND_SPEED (snd g)),
      bucket_TEMP = agg_max (map TEMP (snd g)),
      bucket_PREDICTION = agg_max (map PREDICTION (snd g)),
      bucket_WIND_DIRECTION = agg_wind_direction (map WIND_DIRECTION (snd g))\<rparr>"

definition wind_buckets :: "int \<Rightarrow> weather_row list \<Rightarrow> wind_bucket list" where
  "wind_buckets gb_min plot_df = map wind_agg (groupby_dynamic gb_min (sort_key DATE plot_df))"

text \<open>
  One marker for each bucket (lines 784 to 820). The predicted style is the colour
  chartreuse with the hover text "Predicted Wind speed", the observed style the colour
  dodgerblue with the hover text "Wind speed".
\<close>

datatype marker_style = Predicted_chartreuse | Observed_dodgerblue

record wind_marker =
  marker_x :: datetime
  marker_y :: "real option"
  marker_angle :: "real option"
  marker_style :: marker_style

definition wind_scatter :: "wind_bucket \<Rightarrow> wind_marker" where
  "wind_scatter row =
     (if bucket_PREDICTION row = Some True
      then \<lparr>marker_x = bucket_DATE row, marker_y = bucket_WIND_SPEED row,
            marker_angle = bucket_WIND_DIRECTION row, marker_style = Predicted_chartreuse\<rparr>
      else \<lparr>marker_x = bucket_DATE row, marker_y = bucket_WIND_SPEED row,
            marker_angle = bucket_WIND_DIRECTION row, marker_style = Observed_dodgerblue\<rparr>)"

text \<open>
  \<^verbatim>\<open>make_wind_fig\<close>: the axis ranges and the markers of the figure. The call fails (it logs
  and returns \<^verbatim>\<open>None\<close>) when the whole series has no wind speed, since \<^verbatim>\<open>None + 2\<close>
  raises, and when the filtered series is empty, since the shading helper then fails on
  the missing dates and the figure it returns is \<^verbatim>\<open>None\<close>. The day and night shading
  itself is not modelled.
\<close>

definition WIND_PLOT_PADDING :: real where
  "WIND_PLOT_PADDING = 2"

record wind_fig =
  yaxis_range :: "real \<times> real"
  xaxis_range :: "datetime \<times> datetime"
  traces :: "wind_marker list"

definition make_wind_fig ::
  "datetime \<Rightarrow> weather_row list \<Rightarrow> datetime option \<Rightarrow> datetime option \<Rightarrow> wind_fig option" where
  "make_wind_fig now weather_df plot_start_date plot_end_date =
     (let plot_df = filter_weather_df_by_date now weather_df plot_start_date plot_end_date;
          gb_min = wind_gb_min (map DATE plot_df);
          buckets = wind_buckets gb_min plot_df
      in case agg_max (map WIND_SPEED weather_df) of
           None \<Rightarrow> None
         | Some w \<Rightarrow>
             (case (col_min (map DATE plot_df), col_max (map DATE plot_df)) of
                (Some start_date, Some end_date) \<Rightarrow>
                  Some \<lparr>yaxis_range = (0, w + WIND_PLOT_PADDING),
                        xaxis_range = (start_date, end_date),
                        traces = map wind_scatter buckets\<rparr>
              | _ \<Rightarrow> None))"

text \<open>
  An observed row at 2023-06-15 12:00:30 (5 mph from 350 degrees) and a forecast row at
  12:01:00 (7 mph from 10 degrees) fall into the one bucket that starts at 12:00:00.
\<close>

definition example_wind_df :: "weather_row list" where
  "example_wind_df =
     [(null_row 1686830430000000)\<lparr>WIND_SPEED := Some 5, WIND_DIRECTION := Some 350\<rparr>,
      (null_row 1686830460000000)\<lparr>WIND_SPEED := Some 7, WIND_DIRECTION := Some 10,
                                   PREDICTION := Some True\<rparr>]"

text \<open>
  The direction of a bucket as the specification words it: the circular mean of the
  angles in the bucket, that is, of the directions its rows have.
\<close>

definition spec_bucket_direction :: "weather_row list \<Rightarrow> real option" where
  "spec_bucket_direction rows =
     Some (degrees (circmean (map radians (non_null (map WIND_DIRECTION rows)))))"

text \<open>
  A bucket of two rows, the first from 350 degrees and the second with a null
  direction.
\<close>

definition example_null_direction_rows :: "weather_row list" where
  "example_null_direction_rows =
     [(null_row 1686830430000000)\<lparr>WIND_SPEED := Some 5, WIND_DIRECTION := Some 350\<rparr>,
      (null_row 1686830460000000)\<lparr>WIND_SPEED := Some 7\<rparr>]"

section \<open>AggregationEngine: \<^verbatim>\<open>make_high_low_annotations_dict\<close>\<close>

text \<open>
  The calendar date of a datetime, as its day number, and \<^verbatim>\<open>dt.day()\<close>, the day of the
  month (1 to 31) of that date in the proleptic Gregorian calendar.
\<close>

definition dt_date :: "datetime \<Rightarrow> int" where
  "dt_date t = t div us_per_day"

definition day_of_month :: "int \<Rightarrow> int" where
  "day_of_month date =
     (let z = date + 719468;
          era = z div 146097;
          doe = z - era * 146097;
          yoe = (doe - doe div 1460 + doe div 36524 - doe div 146096) div 365;
          doy = doe - (365 * yoe + yoe div 4 - yoe div 100);
          mp = (5 * doy + 2) div 153
      in doy - (153 * mp + 2) div 5 + 1)"

definition dt_day :: "datetime \<Rightarrow> int" where
  "dt_day t = day_of_month (dt_date t)"

text \<open>
  The keys of \<^verbatim>\<open>HIGH_LOW_ALIAS_COL_DICT\<close>, in the order of the dictionary, and the column
  each one stands for.
\<close>

datatype anno_type = High_Temp | Low_Temp | High_Windspeed

definition anno_types :: "anno_type list" where
  "anno_types = [High_Temp, Low_Temp, High_Windspeed]"

fun HIGH_LOW_ALIAS_COL :: "anno_type \<Rightarrow> weather_row \<Rightarrow> real option" where
  "HIGH_LOW_ALIAS_COL High_Temp = TEMP"
| "HIGH_LOW_ALIAS_COL Low_Temp = TEMP"
| "HIGH_LOW_ALIAS_COL High_Windspeed = WIND_SPEED"

text \<open>
  \<^verbatim>\<open>weather_df.groupby(pl.col("DATE").dt.day()).agg([...])\<close>: one row for each value of
  \<^verbatim>\<open>dt.day()\<close>. polars leaves the order of the groups open; the order of first occurrence
  is taken here.
\<close>

record high_low_row =
  hl_DATE :: int
  hl_High_Temp :: "real option"
  hl_Low_Temp :: "real option"
  hl_High_Windspeed :: "real option"

fun hl_value :: "high_low_row \<Rightarrow> anno_type \<Rightarrow> real option" where
  "hl_value row High_Temp = hl_High_Temp row"
| "hl_value row Low_Temp = hl_Low_Temp row"
| "hl_value row High_Windspeed = hl_High_Windspeed row"

definition high_low_agg :: "weather_row list \<Rightarrow> int \<Rightarrow> high_low_row" where
  "high_low_agg weather_df day =
     (let group = filter (\<lambda>r. dt_day (DATE r) = day) weather_df
      in \<lparr>hl_DATE = day,
          hl_High_Temp = agg_max (map TEMP group),
          hl_Low_Temp = agg_min (map TEMP group),
          hl_High_Windspeed = agg_max (map WIND_SPEED group)\<rparr>)"

definition high_low_df :: "weather_row list \<Rightarrow> high_low_row list" where
  "high_low_df weather_df =
     map (high_low_agg weather_df) (remdups (map (\<lambda>r. dt_day (DATE r)) weather_df))"

text \<open>
  The dictionary of annotations maps a key to its list of \<open>(timestamp, value)\<close> pairs.
  \<open>this_df\<close> holds the rows of the series with the day of the group and the extreme
  value, in the order of the series; \<^verbatim>\<open>this_df["DATE"][0]\<close> raises on an empty frame, and
  the function then logs and returns \<^verbatim>\<open>None\<close>.
\<close>

type_synonym annotations_dict = "anno_type \<rightharpoonup> (datetime \<times> real) list"

definition this_df :: "weather_row list \<Rightarrow> int \<Rightarrow> anno_type \<Rightarrow> real \<Rightarrow> weather_row list" where
  "this_df weather_df day anno_type v =
     filter (\<lambda>r. dt_day (DATE r) = day \<and> HIGH_LOW_ALIAS_COL anno_type r = Some v) weather_df"

definition add_annotation ::
  "weather_row list \<Rightarrow> int \<Rightarrow> anno_type \<Rightarrow> real \<Rightarrow> annotations_dict \<Rightarrow> annotations_dict option" where
  "add_annotation weather_df day anno_type v annotations_dict =
     (case this_df weather_df day anno_type v of
        [] \<Rightarrow> None
      | r # _ \<Rightarrow>
          (case annotations_dict anno_type of
             Some l \<Rightarrow> Some (annotations_dict(anno_type \<mapsto> l @ [(DATE r, v)]))
           | None \<Rightarrow> Some (annotations_dict(anno_type \<mapsto> [(DATE r, v)]))))"

fun anno_type_loop ::
  "weather_row list \<Rightarrow> high_low_row \<Rightarrow> anno_type list \<Rightarrow> annotations_dict \<Rightarrow> annotations_dict option" where
  "anno_type_loop weather_df row [] annotations_dict = Some annotations_dict"
| "anno_type_loop weather_df row (anno_type # rest) annotations_dict =
     (case hl_value row anno_type of
        None \<Rightarrow> anno_type_loop weather_df row rest annotations_dict
      | Some v \<Rightarrow>
          (case add_annotation weather_df (hl_DATE row) anno_type v annotations_dict of
             None \<Rightarrow> None
           | Some d \<Rightarrow> anno_type_loop weather_df row rest d))"

fun row_loop ::
  "weather_row list \<Rightarrow> high_low_row list \<Rightarrow> annotations_dict \<Rightarrow> annotations_dict option" where
  "row_loop weather_df [] annotations_dict = Some annotations_dict"
| "row_loop weather_df (row # rows) annotations_dict =
     (case anno_type_loop weather_df row anno_types annotations_dict of
        None \<Rightarrow> None
      | Some d \<Rightarrow> row_loop weather_df rows d)"

definition make_high_low_annotations_dict :: "weather_row list \<Rightarrow> annotations_dict option" where
  "make_high_low_annotations_dict weather_df =
     row_loop weather_df (high_low_df weather_df) Map.empty"

text \<open>The list under a key of the dictionary, empty when the key is absent.\<close>

definition dict_get :: "annotations_dict \<Rightarrow> anno_type \<Rightarrow> (datetime \<times> real) list" where
  "dict_get d anno_type = (case d anno_type of None \<Rightarrow> [] | Some l \<Rightarrow> l)"

definition annotations_of :: "weather_row list \<Rightarrow> anno_type \<Rightarrow> (datetime \<times> real) list option" where
  "annotations_of weather_df anno_type =
     map_option (\<lambda>d. dict_get d anno_type) (make_high_low_annotations_dict weather_df)"

text \<open>
  The aggregation as the specification words it. The rows of a calendar day are those
  with its date; the extremum of a category over them is the maximum temperature, the
  minimum temperature or the maximum wind speed; the annotation of the day is the
  extremum with a timestamp at which it occurred on that day, one annotation for each
  day and category that has an extremum. \<open>spec_annotation_first\<close> takes the timestamp of
  the first such row in the order of the series, \<open>spec_annotation_earliest\<close> the earliest
  such timestamp.
\<close>

definition day_rows :: "weather_row list \<Rightarrow> int \<Rightarrow> weather_row list" where
  "day_rows weather_df date = filter (\<lambda>r. dt_date (DATE r) = date) weather_df"

fun extremum :: "anno_type \<Rightarrow> weather_row list \<Rightarrow> real option" where
  "extremum High_Temp rows = agg_max (map TEMP rows)"
| "extremum Low_Temp rows = agg_min (map TEMP rows)"
| "extremum High_Windspeed rows = agg_max (map WIND_SPEED rows)"

definition spec_annotation_first ::
  "weather_row list \<Rightarrow> anno_type \<Rightarrow> int \<Rightarrow> (datetime \<times> real) option" where
  "spec_annotation_first weather_df anno_type date =
     (case extremum anno_type (day_rows weather_df date) of
        None \<Rightarrow> None
      | Some v \<Rightarrow>
          map_option (\<lambda>r. (DATE r, v))
            (find (\<lambda>r. HIGH_LOW_ALIAS_COL anno_type r = Some v) (day_rows weather_df date)))"

definition spec_annotation_earliest ::
  "weather_row list \<Rightarrow> anno_type \<Rightarrow> int \<Rightarrow> (datetime \<times> real) option" where
  "spec_annotation_earliest weather_df anno_type date =
     (case extremum anno_type (day_rows weather_df date) of
        None \<Rightarrow> None
      | Some v \<Rightarrow>
          map_option (\<lambda>t. (t, v))
            (col_min (map DATE
               (filter (\<lambda>r. HIGH_LOW_ALIAS_COL anno_type r = Some v) (day_rows weather_df date)))))"

definition spec_annotations ::
  "(weather_row list \<Rightarrow> anno_type \<Rightarrow> int \<Rightarrow> (datetime \<times> real) option) \<Rightarrow>
   weather_row list \<Rightarrow> anno_type \<Rightarrow> (datetime \<times> real) list" where
  "spec_annotations annotation weather_df anno_type =
     List.map_filter (annotation weather_df anno_type)
       (remdups (map (\<lambda>r. dt_date (DATE r)) weather_df))"

text \<open>
  A series in which rows on different calendar dates never share a day of the month, as
  in every series whose dates all lie within 28 consecutive calendar days.
\<close>

definition days_distinct :: "weather_row list \<Rightarrow> bool" where
  "days_distinct weather_df \<longleftrightarrow>
     inj_on day_of_month ((\<lambda>r. dt_date (DATE r)) ` set weather_df)"

text \<open>
  Three observed rows in the descending order of time in which
  \<^verbatim>\<open>read_weather_observations\<close> returns them: 2023-06-16 09:00 with 25 degrees, and
  2023-06-15 12:00 and 08:00 with 20 degrees each.
\<close>

definition example_tie_df :: "weather_row list" where
  "example_tie_df =
     [(null_row 1686906000000000)\<lparr>TEMP := Some 25\<rparr>,
      (null_row 1686830400000000)\<lparr>TEMP := Some 20\<rparr>,
      (null_row 1686816000000000)\<lparr>TEMP := Some 20\<rparr>]"

text \<open>
  Two rows a month apart, 2023-07-15 09:00 with 40 degrees and 2023-06-15 09:00 with 30
  degrees: different calendar dates with the same day of the month.
\<close>

definition example_two_month_df :: "weather_row list" where
  "example_two_month_df =
     [(null_row 1689411600000000)\<lparr>TEMP := Some 40\<rparr>,
      (null_row 1686819600000000)\<lparr>TEMP := Some 30\<rparr>]"

text \<open>
  The annotation that one pass of the inner loop adds for a row of \<open>high_low_df\<close> and a
  key: none when the aggregate is null.
\<close>

definition anno_points :: "weather_row list \<Rightarrow> high_low_row \<Rightarrow> anno_type \<Rightarrow> (datetime \<times> real) list" where
  "anno_points weather_df row anno_type =
     (case hl_value row anno_type of
        None \<Rightarrow> []
      | Some v \<Rightarrow>
          (case this_df weather_df (hl_DATE row) anno_type v of
             [] \<Rightarrow> []
           | r # _ \<Rightarrow> [(DATE r, v)]))"

definition extremum_found :: "weather_row list \<Rightarrow> high_low_row \<Rightarrow> anno_type list \<Rightarrow> bool" where
  "extremum_found weather_df row keys \<longleftrightarrow>
     (\<forall>a \<in> set keys. \<forall>v. hl_value row a = Some v \<longrightarrow> this_df weather_df (hl_DATE row) a v \<noteq> [])"

section \<open>ObservationReader: \<^verbatim>\<open>read_weather_observations\<close>\<close>

text \<open>
  One line of the observation log, with the columns that the reader keeps and the
  cursor \<open>id\<close> (named \<open>obs_id\<close> here); the reader drops the other columns at once. An
  empty cell is \<open>None\<close>.
\<close>

record observation =
  obs_id :: "real option"
  dateutc :: string
  tempf :: "real option"
  dewpointf :: "real option"
  winddir :: "real option"
  windspeedmph :: "real option"
  windgustmph :: "real option"
  hourlyrainin :: "real option"
  eventrainin :: "real option"
  dailyrainin :: "real option"

text \<open>One row of the frame the reader returns: the nine columns of its \<^verbatim>\<open>select\<close>.\<close>

record observation_row =
  o_DATE :: datetime
  o_TEMP :: "real option"
  o_DEWPOINT :: "real option"
  o_WIND_SPEED :: "real option"
  o_WIND_DIRECTION :: "real option"
  o_GUST_SPEED :: "real option"
  o_RAIN_HOURLY :: "real option"
  o_RAIN_DAILIY :: "real option"
  o_RAIN_EVENT :: "real option"

text \<open>
  \<^verbatim>\<open>dt.replace_time_zone("UTC").dt.convert_time_zone(timezone_string).dt.replace_time_zone(None)\<close>:
  the wall clock of the zone at a UTC instant. The offset of the zone at each instant
  comes from the time zone database and is a parameter.
\<close>

definition convert_time_zone :: "(datetime \<Rightarrow> timedelta) \<Rightarrow> datetime \<Rightarrow> datetime" where
  "convert_time_zone utc_offset t = t + utc_offset t"

text \<open>\<^verbatim>\<open>round(1)\<close> on a Float64 column: to one decimal, halves away from zero.\<close>

definition round1 :: "real \<Rightarrow> real" where
  "round1 x = (if 0 \<le> x then of_int \<lfloor>x * 10 + 1 / 2\<rfloor> / 10 else - (of_int \<lfloor>- x * 10 + 1 / 2\<rfloor> / 10))"

text \<open>
  The three steps of the query that decide which lines are kept. A comparison with a
  null cell is null and the filter drops the line. \<open>strptime\<close> is
  \<^verbatim>\<open>str.strptime(pl.Datetime, format="%Y-%m-%d %H:%M:%S", strict=False)\<close>, a parameter:
  with \<^verbatim>\<open>strict=False\<close> a string that does not parse gives null and raises nothing.
\<close>

definition id_recent :: "observation list \<Rightarrow> observation \<Rightarrow> bool" where
  "id_recent observation_lf obs =
     (case (obs_id obs, agg_max (map obs_id observation_lf)) of
        (Some i, Some m) \<Rightarrow> i \<ge> m - 4000
      | _ \<Rightarrow> False)"

definition datect :: "(string \<Rightarrow> datetime option) \<Rightarrow> (datetime \<Rightarrow> timedelta) \<Rightarrow> observation \<Rightarrow> datetime option" where
  "datect strptime utc_offset obs = map_option (convert_time_zone utc_offset) (strptime (dateutc obs))"

definition in_last_3_days :: "datetime \<Rightarrow> datetime option \<Rightarrow> bool" where
  "in_last_3_days utcnow t =
     (case t of None \<Rightarrow> False | Some d \<Rightarrow> d > utcnow - timedelta_days 3)"

definition observation_to_row :: "datetime \<Rightarrow> observation \<Rightarrow> observation_row" where
  "observation_to_row d obs =
     \<lparr>o_DATE = d, o_TEMP = tempf obs, o_DEWPOINT = map_option round1 (dewpointf obs),
      o_WIND_SPEED = windspeedmph obs, o_WIND_DIRECTION = winddir obs,
      o_GUST_SPEED = windgustmph obs, o_RAIN_HOURLY = hourlyrainin obs,
      o_RAIN_DAILIY = dailyrainin obs, o_RAIN_EVENT = eventrainin obs\<rparr>"

text \<open>
  \<^verbatim>\<open>read_weather_observations()\<close>. The log is \<open>None\<close> when it is missing or cannot be
  read: \<^verbatim>\<open>collect()\<close> raises, the handler logs the exception and the function returns
  \<^verbatim>\<open>None\<close>. \<open>utcnow\<close> is the reading of \<^verbatim>\<open>datetime.datetime.utcnow()\<close>. The result is sorted
  by time, latest first; polars leaves the order of rows with equal timestamps open, and
  a stable sort is taken here.
\<close>

definition read_weather_observations ::
  "(string \<Rightarrow> datetime option) \<Rightarrow> (datetime \<Rightarrow> timedelta) \<Rightarrow> datetime \<Rightarrow>
   observation list option \<Rightarrow> observation_row list option" where
  "read_weather_observations strptime utc_offset utcnow csv =
     (case csv of
        None \<Rightarrow> None
      | Some observation_lf \<Rightarrow>
          Some (sort_key (\<lambda>r. - o_DATE r)
                 (List.map_filter
                    (\<lambda>obs. case datect strptime utc_offset obs of
                             None \<Rightarrow> None
                           | Some d \<Rightarrow>
                               if in_last_3_days utcnow (Some d)
                               then Some (observation_to_row d obs)
                               else None)
                    (filter (id_recent observation_lf) observation_lf))))"



section \<open>A parser for the examples\<close>

text \<open>
  A parser for the examples: it accepts exactly the 19 characters
  \<^verbatim>\<open>YYYY-MM-DD HH:MM:SS\<close> with zero-padded fields in range, the form in which the station
  reports its timestamps, and gives the microseconds since 1970-01-01 00:00:00.
\<close>

definition digit :: "char \<Rightarrow> int option" where
  "digit c = (if 48 \<le> (of_char c :: nat) \<and> (of_char c :: nat) \<le> 57
              then Some (int (of_char c) - 48) else None)"

fun number :: "string \<Rightarrow> int \<Rightarrow> int option" where
  "number [] acc = Some acc"
| "number (c # cs) acc = (case digit c of None \<Rightarrow> None | Some d \<Rightarrow> number cs (acc * 10 + d))"

definition is_leap :: "int \<Rightarrow> bool" where
  "is_leap y \<longleftrightarrow> y mod 4 = 0 \<and> (y mod 100 \<noteq> 0 \<or> y mod 400 = 0)"

definition days_in_month :: "int \<Rightarrow> int \<Rightarrow> int" where
  "days_in_month y m =
     (if m = 2 then (if is_leap y then 29 else 28)
      else if m = 4 \<or> m = 6 \<or> m = 9 \<or> m = 11 then 30 else 31)"

definition days_from_civil :: "int \<Rightarrow> int \<Rightarrow> int \<Rightarrow> int" where
  "days_from_civil y m d =
     (let y' = (if m \<le> 2 then y - 1 else y);
          era = y' div 400;
          yoe = y' - era * 400;
          doy = (153 * (if m > 2 then m - 3 else m + 9) + 2) div 5 + d - 1;
          doe = yoe * 365 + yoe div 4 - yoe div 100 + doy
      in era * 146097 + doe - 719468)"

definition strptime_strict :: "string \<Rightarrow> datetime option" where
  "strptime_strict s =
     (if length s = 19 \<and> s ! 4 = CHR ''-'' \<and> s ! 7 = CHR ''-'' \<and> s ! 10 = CHR '' '' \<and>
         s ! 13 = CHR '':'' \<and> s ! 16 = CHR '':''
      then (case (number (take 4 s) 0, number (take 2 (drop 5 s)) 0,
                  number (take 2 (drop 8 s)) 0, number (take 2 (drop 11 s)) 0,
                  number (take 2 (drop 14 s)) 0, number (take 2 (drop 17 s)) 0) of
              (Some y, Some m, Some d, Some h, Some mi, Some sec) \<Rightarrow>
                if 1 \<le> m \<and> m \<le> 12 \<and> 1 \<le> d \<and> d \<le> days_in_month y m \<and>
                   h < 24 \<and> mi < 60 \<and> sec < 60
                then Some (days_from_civil y m d * us_per_day +
                           ((h * 60 + mi) * 60 + sec) * us_per_second)
                else None
            | _ \<Rightarrow> None)
      else None)"

text \<open>US/Central in winter: Central Standard Time, six hours behind UTC.\<close>

definition central_standard_time :: "datetime \<Rightarrow> timedelta" where
  "central_standard_time t = - 6 * 3600 * us_per_second"

section \<open>ForecastReader: \<^verbatim>\<open>read_weather_predictions\<close>\<close>

text \<open>
  One line of the forecast log, with the columns that the reader keeps; the times are
  UTC instants. One row of the frame the reader returns: the seven columns of its
  \<^verbatim>\<open>select\<close>, with \<open>PREDICTION\<close> the literal the reader adds.
\<close>

record forecast =
  startTime :: "datetime option"
  temperature :: "real option"
  probabilityOfPrecipitation :: "int option"
  dewpoint :: "real option"
  windSpeed :: "real option"
  windDirection :: "real option"
  forecast_updated_time :: "datetime option"

record prediction_row =
  p_DATE :: datetime
  p_TEMP :: "real option"
  p_DEWPOINT :: "real option"
  p_WIND_SPEED :: "real option"
  p_WIND_DIRECTION :: "real option"
  p_PRECIP_PROB :: "int option"
  p_PREDICTION :: bool

text \<open>
  The bound on the start time,
  \<^verbatim>\<open>utcnow().replace(tzinfo=utc) - timedelta(minutes=utcnow().minute)\<close>; the two readings
  of the clock are taken to be the same instant.
\<close>

definition start_threshold :: "datetime \<Rightarrow> datetime" where
  "start_threshold utcnow = utcnow - timedelta_minutes (dt_minute utcnow)"

definition forecast_kept :: "datetime \<Rightarrow> forecast list \<Rightarrow> forecast \<Rightarrow> bool" where
  "forecast_kept utcnow predictions_lf f =
     ((case (forecast_updated_time f, agg_max (map forecast_updated_time predictions_lf)) of
         (Some u, Some forecast_update_date) \<Rightarrow> u = forecast_update_date
       | _ \<Rightarrow> False) \<and>
      (case startTime f of
         Some s \<Rightarrow> s > start_threshold utcnow
       | None \<Rightarrow> False))"

definition forecast_to_row :: "(datetime \<Rightarrow> timedelta) \<Rightarrow> forecast \<Rightarrow> prediction_row option" where
  "forecast_to_row utc_offset f =
     (case startTime f of
        None \<Rightarrow> None
      | Some s \<Rightarrow>
          Some \<lparr>p_DATE = convert_time_zone utc_offset s, p_TEMP = temperature f,
                p_DEWPOINT = dewpoint f, p_WIND_SPEED = windSpeed f,
                p_WIND_DIRECTION = windDirection f,
                p_PRECIP_PROB = probabilityOfPrecipitation f, p_PREDICTION = True\<rparr>)"

text \<open>
  \<^verbatim>\<open>read_weather_predictions()\<close>. The log is \<open>None\<close> when it is missing or cannot be read,
  and the function then logs and returns \<^verbatim>\<open>None\<close>. The result is sorted by local start
  time, earliest first.
\<close>

definition read_weather_predictions ::
  "(datetime \<Rightarrow> timedelta) \<Rightarrow> datetime \<Rightarrow> forecast list option \<Rightarrow> prediction_row list option" where
  "read_weather_predictions utc_offset utcnow csv =
     (case csv of
        None \<Rightarrow> None
      | Some predictions_lf \<Rightarrow>
          Some (sort_key p_DATE
                 (List.map_filter (forecast_to_row utc_offset)
                    (filter (forecast_kept utcnow predictions_lf) predictions_lf))))"

text \<open>
  The top of the current hour, and the rows the specification says the reader returns:
  those of the latest batch whose start time is at or after the top of the current hour.
\<close>

definition top_of_hour :: "datetime \<Rightarrow> datetime" where
  "top_of_hour t = t - t mod (3600 * us_per_second)"

definition latest_batch :: "forecast list \<Rightarrow> forecast \<Rightarrow> bool" where
  "latest_batch predictions_lf f \<longleftrightarrow>
     forecast_updated_time f \<noteq> None \<and>
     forecast_updated_time f = agg_max (map forecast_updated_time predictions_lf)"

definition starts_after :: "datetime \<Rightarrow> forecast \<Rightarrow> bool" where
  "starts_after t f \<longleftrightarrow> (case startTime f of None \<Rightarrow> False | Some s \<Rightarrow> s > t)"

definition spec_forecast_kept :: "datetime \<Rightarrow> forecast list \<Rightarrow> forecast \<Rightarrow> bool" where
  "spec_forecast_kept utcnow predictions_lf f \<longleftrightarrow>
     latest_batch predictions_lf f \<and>
     (case startTime f of None \<Rightarrow> False | Some s \<Rightarrow> s \<ge> top_of_hour utcnow)"

section \<open>TimeSeriesMerger: \<^verbatim>\<open>make_weather_df\<close>\<close>

text \<open>
  \<^verbatim>\<open>pl.concat([observation_df, predictions_df], how="diagonal")\<close>: the rows of the first
  frame, then the rows of the second, over the union of the columns; a column that a
  frame lacks is null in its rows.
\<close>

definition of_observation_row :: "observation_row \<Rightarrow> weather_row" where
  "of_observation_row r =
     \<lparr>DATE = o_DATE r, TEMP = o_TEMP r, DEWPOINT = o_DEWPOINT r, WIND_SPEED = o_WIND_SPEED r,
      WIND_DIRECTION = o_WIND_DIRECTION r, GUST_SPEED = o_GUST_SPEED r,
      RAIN_HOURLY = o_RAIN_HOURLY r, RAIN_DAILIY = o_RAIN_DAILIY r,
      RAIN_EVENT = o_RAIN_EVENT r, PRECIP_PROB = None, PREDICTION = None\<rparr>"

definition of_prediction_row :: "prediction_row \<Rightarrow> weather_row" where
  "of_prediction_row r =
     \<lparr>DATE = p_DATE r, TEMP = p_TEMP r, DEWPOINT = p_DEWPOINT r, WIND_SPEED = p_WIND_SPEED r,
      WIND_DIRECTION = p_WIND_DIRECTION r, GUST_SPEED = None, RAIN_HOURLY = None,
      RAIN_DAILIY = None, RAIN_EVENT = None, PRECIP_PROB = p_PRECIP_PROB r,
      PREDICTION = Some (p_PREDICTION r)\<rparr>"

definition concat_diagonal :: "observation_row list \<Rightarrow> prediction_row list \<Rightarrow> weather_row list" where
  "concat_diagonal observation_df predictions_df =
     map of_observation_row observation_df @ map of_prediction_row predictions_df"

text \<open>
  \<^verbatim>\<open>make_weather_df()\<close>. When a reader has returned \<^verbatim>\<open>None\<close> the concatenation raises,
  and the function logs and returns \<^verbatim>\<open>None\<close>.
\<close>

definition make_weather_df ::
  "(string \<Rightarrow> datetime option) \<Rightarrow> (datetime \<Rightarrow> timedelta) \<Rightarrow> datetime \<Rightarrow>
   observation list option \<Rightarrow> forecast list option \<Rightarrow> weather_row list option" where
  "make_weather_df strptime utc_offset utcnow observations_csv predictions_csv =
     (case (read_weather_observations strptime utc_offset utcnow observations_csv,
            read_weather_predictions utc_offset utcnow predictions_csv) of
        (Some observation_df, Some predictions_df) \<Rightarrow>
          Some (concat_diagonal observation_df predictions_df)
      | _ \<Rightarrow> None)"

section \<open>Example logs\<close>

text \<open>
  An observation log read at 2023-01-15 18:30:15 UTC: a line stamped 18:00:00 and a
  line whose timestamp is not a timestamp.
\<close>

definition null_observation :: "real \<Rightarrow> string \<Rightarrow> observation" where
  "null_observation i s =
     \<lparr>obs_id = Some i, dateutc = s, tempf = None, dewpointf = None, winddir = None,
      windspeedmph = None, windgustmph = None, hourlyrainin = None, eventrainin = None,
      dailyrainin = None\<rparr>"

definition example_observation_log :: "observation list" where
  "example_observation_log =
     [(null_observation 1 ''2023-01-15 18:00:00'')\<lparr>tempf := Some 31\<rparr>,
      (null_observation 2 ''garbage'')\<lparr>tempf := Some 32\<rparr>]"

text \<open>
  A forecast log read at the same instant: one batch, updated at 17:45:00 UTC, with the
  periods that start at 18:00:00 and at 19:00:00 UTC.
\<close>

definition null_forecast :: "datetime \<Rightarrow> datetime \<Rightarrow> forecast" where
  "null_forecast s u =
     \<lparr>startTime = Some s, temperature = None, probabilityOfPrecipitation = None,
      dewpoint = None, windSpeed = None, windDirection = None,
      forecast_updated_time = Some u\<rparr>"

definition example_forecast_log :: "forecast list" where
  "example_forecast_log =
     [null_forecast 1673805600000000 1673804700000000,
      null_forecast 1673809200000000 1673804700000000]"

definition example_utcnow :: datetime where
  "example_utcnow = 1673807415000000"

section \<open>Theorems\<close>

lemma dt_midnight_shift: "dt_midnight (t + k * us_per_day) = dt_midnight t + k * us_per_day"
  by (simp add: dt_midnight_def)

lemma dt_microsecond_range: "0 \<le> dt_microsecond t \<and> dt_microsecond t < us_per_second"
  by (simp add: dt_microsecond_def us_per_second_def)

lemma default_plot_start_date_eq:
  "default_plot_start_date now =
     dt_midnight now - us_per_day + 1 * us_per_second + dt_microsecond now"
proof -
  have "dt_midnight (now - timedelta_days 1) = dt_midnight now - us_per_day"
    using dt_midnight_shift [of now "- 1"] by (simp add: timedelta_days_def)
  moreover have "dt_microsecond (now - timedelta_days 1) = dt_microsecond now"
  proof -
    have "us_per_day = 86400 * us_per_second" by (simp add: us_per_day_def)
    then have "now - timedelta_days 1 = now + (- 86400) * us_per_second"
      by (simp add: timedelta_days_def)
    then show ?thesis
      unfolding dt_microsecond_def by (metis mod_mult_self1)
  qed
  ultimately show ?thesis
    by (simp add: default_plot_start_date_def replace_hms_def)
qed

lemma default_plot_end_date_eq:
  "default_plot_end_date now =
     dt_midnight now + us_per_day + 86399 * us_per_second + 9999"
  using dt_midnight_shift [of now 1]
  by (simp add: default_plot_end_date_def replace_hmsu_def timedelta_days_def)

text \<open>
  C4, as amended. With no explicit bounds the window filter returns exactly the rows
  whose timestamp lies between a start instant and tomorrow at 23:59:59.009999, both
  included, in the order of the series; the start instant lies within the second that
  begins yesterday at 00:00:01.
\<close>

theorem filter_default_window:
  "\<exists>start. dt_midnight now - us_per_day + 1 * us_per_second \<le> start \<and>
           start < dt_midnight now - us_per_day + 2 * us_per_second \<and>
           filter_weather_df_by_date now weather_df None None =
             filter (\<lambda>r. start \<le> DATE r \<and>
                         DATE r \<le> dt_midnight now + us_per_day + 86399 * us_per_second + 9999)
                    weather_df"
proof -
  let ?s = "default_plot_start_date now"
  have "dt_midnight now - us_per_day + 1 * us_per_second \<le> ?s"
    using dt_microsecond_range [of now] by (simp add: default_plot_start_date_eq)
  moreover have "?s < dt_midnight now - us_per_day + 2 * us_per_second"
    using dt_microsecond_range [of now] by (simp add: default_plot_start_date_eq)
  moreover have "filter_weather_df_by_date now weather_df None None =
      filter (\<lambda>r. ?s \<le> DATE r \<and>
                  DATE r \<le> dt_midnight now + us_per_day + 86399 * us_per_second + 9999)
             weather_df"
    by (simp add: filter_weather_df_by_date_def default_plot_end_date_eq)
  ultimately show ?thesis by blast
qed

text \<open>
  C4, as stated, fails. At 2023-06-15 12:00:00.5 a row stamped yesterday at 00:00:01
  lies in the stated range and is dropped, and a row stamped tomorrow at 23:59:59.005
  lies outside the stated range and is kept.
\<close>

theorem filter_default_window_counterexample:
  "filter_weather_df_by_date 1686830400500000
       [null_row 1686700801000000, null_row 1686959999005000] None None
     = [null_row 1686959999005000] \<and>
   filter (\<lambda>r. spec_default_window 1686830400500000 (DATE r))
       [null_row 1686700801000000, null_row 1686959999005000]
     = [null_row 1686700801000000]"
  by (simp add: filter_weather_df_by_date_def default_plot_start_date_def
      default_plot_end_date_def replace_hms_def replace_hmsu_def dt_midnight_def
      dt_microsecond_def timedelta_days_def us_per_day_def us_per_second_def
      spec_default_window_def null_row_def)

lemma spec_bucket_minutes_eq:
  "0 \<le> delta \<Longrightarrow> spec_bucket_minutes delta = max 2 (delta div (60 * 180 * us_per_second))"
proof -
  assume "0 \<le> delta"
  have "delta div (us_per_second * (60 * 180)) = delta div us_per_second div (60 * 180)"
    by (rule zdiv_zmult2_eq) simp
  also have "\<dots> = delta div us_per_second div 60 div 180"
    by (simp add: zdiv_zmult2_eq)
  finally show ?thesis
    by (simp add: spec_bucket_minutes_def mult.commute)
qed

text \<open>
  C8, as amended. When the filtered series spans more than 15 minutes the bucket width
  in minutes is the span in seconds divided by 60 and by 180, truncated, and not less
  than 2; when it spans 15 minutes or less the width is 15 minutes; when the filtered
  series is empty the width is 2 minutes.
\<close>

theorem wind_gb_min_width:
  "wind_gb_min dates =
     (if dates = [] then 2
      else if Max (set dates) - Min (set dates) > 60 * 15 * us_per_second
           then spec_bucket_minutes (Max (set dates) - Min (set dates))
           else 15)"
proof (cases "dates = []")
  case True
  then show ?thesis by (simp add: wind_gb_min_def col_min_def col_max_def)
next
  case False
  then have "Min (set dates) \<le> Max (set dates)" by simp
  then have "0 \<le> Max (set dates) - Min (set dates)" by simp
  from spec_bucket_minutes_eq [OF this] False show ?thesis
    by (simp add: wind_gb_min_def col_min_def col_max_def gb_min_of_delta_def Let_def max_def)
qed

theorem wind_gb_min_width_witness:
  "wind_gb_min [0, 86400 * 1000000] = 8 \<and> wind_gb_min [0, 3600 * 1000000] = 2 \<and>
   wind_gb_min [0, 600 * 1000000] = 15 \<and> wind_gb_min [] = 2"
  using wind_gb_min_width [of "[0, 86400 * 1000000]"] wind_gb_min_width [of "[0, 3600 * 1000000]"]
    wind_gb_min_width [of "[0, 600 * 1000000]"] wind_gb_min_width [of "[]"]
  by (simp add: spec_bucket_minutes_def us_per_second_def)

text \<open>
  C8, as stated, fails. A series whose first and last rows are 10 minutes apart is
  bucketed by 15 minutes, where the stated rule gives 2.
\<close>

theorem wind_gb_min_counterexample:
  "wind_gb_min [1686830400000000, 1686831000000000] = 15 \<and>
   spec_bucket_minutes (1686831000000000 - 1686830400000000) = 2"
  by (simp add: wind_gb_min_def col_min_def col_max_def gb_min_of_delta_def
      spec_bucket_minutes_def us_per_second_def)

lemma dew_AB_pos: "0 < dew_A * dew_B"
  by (simp add: dew_A_def dew_B_def)

lemma dew_A_pos: "0 < dew_A"
  by (simp add: dew_A_def)

lemma dew_B_pos: "0 < dew_B"
  by (simp add: dew_B_def)

lemma celsius_pos: "0 < dew_B + (t - 32) * 5 / 9 \<longleftrightarrow> - 395.86 < t"
  by (auto simp: dew_B_def field_simps)

lemma celsius_zero: "dew_B + (t - 32) * 5 / 9 = 0 \<longleftrightarrow> t = - 395.86"
  by (auto simp: dew_B_def field_simps)

lemma dew_denominator_pos:
  assumes "- 395.86 < t" "0 < rh" "rh \<le> 100"
  shows "0 < dew_denominator t rh"
proof -
  have "0 < dew_B + (t - 32) * 5 / 9" using assms(1) by (simp only: celsius_pos)
  then have "0 < dew_A * dew_B / (dew_B + (t - 32) * 5 / 9)" using dew_AB_pos by simp
  moreover have "ln (rh / 100) \<le> 0" using assms(2,3) by simp
  ultimately show ?thesis by (simp add: dew_denominator_def)
qed

lemma magnus_alpha:
  fixes A B c L :: real
  assumes "c \<noteq> 0"
  shows "A - (A * (c - B) / c + L) = A * B / c - L"
  using assms by (simp add: field_simps)

lemma magnus_inverse:
  fixes A B u :: real
  assumes "u \<noteq> 0"
  shows "B * (A - u) / u = A * B / u - B"
  using assms by (simp add: field_simps)

lemma get_dew_point_f_unfold:
  "get_dew_point_f t rh =
     (if dew_B + (t - 32) * 5 / 9 = 0 \<or> rh \<le> 0 then None
      else if dew_A - (dew_A * ((t - 32) * 5 / 9) / (dew_B + (t - 32) * 5 / 9) + ln (rh / 100)) = 0
           then None
           else Some (dew_B * (dew_A * ((t - 32) * 5 / 9) / (dew_B + (t - 32) * 5 / 9) + ln (rh / 100)) /
                      (dew_A - (dew_A * ((t - 32) * 5 / 9) / (dew_B + (t - 32) * 5 / 9) + ln (rh / 100)))
                      * 9 / 5 + 32))"
  unfolding get_dew_point_f_def Let_def by (rule refl)

lemma get_dew_point_f_closed:
  assumes "- 395.86 < t" "0 < rh" "rh \<le> 100"
  shows "get_dew_point_f t rh =
           Some ((dew_A * dew_B / dew_denominator t rh - dew_B) * 9 / 5 + 32)"
proof -
  define c where "c = dew_B + (t - 32) * 5 / 9"
  define L where "L = ln (rh / 100)"
  define u where "u = dew_A * dew_B / c - L"
  define a where "a = dew_A * ((t - 32) * 5 / 9) / c + L"
  have c: "0 < c" using assms(1) by (simp only: c_def celsius_pos)
  have ud: "u = dew_denominator t rh"
    by (simp add: dew_denominator_def c_def L_def u_def)
  have u: "0 < u"
    using dew_denominator_pos [OF assms] by (simp only: ud)
  have tc: "(t - 32) * 5 / 9 = c - dew_B" by (simp add: c_def)
  have alpha: "dew_A - a = u"
    unfolding a_def tc u_def using magnus_alpha [of c dew_A dew_B L] c by simp
  then have a: "a = dew_A - u" by simp
  have r: "dew_B * a / u = dew_A * dew_B / u - dew_B"
    unfolding a using magnus_inverse [of u dew_B dew_A] u by simp
  have "get_dew_point_f t rh =
          (if c = 0 \<or> rh \<le> 0 then None
           else if dew_A - a = 0 then None
           else Some (dew_B * a / (dew_A - a) * 9 / 5 + 32))"
    unfolding c_def a_def L_def by (rule get_dew_point_f_unfold)
  also have "\<dots> = Some (dew_B * a / u * 9 / 5 + 32)"
    unfolding alpha using c u assms(2) by simp
  also have "\<dots> = Some ((dew_A * dew_B / u - dew_B) * 9 / 5 + 32)"
    by (simp only: r)
  finally show ?thesis
    by (simp only: ud)
qed

lemma get_dew_point_f_mono_temperature:
  assumes a: "- 395.86 < t1" "t1 < t2" "0 < rh" "rh \<le> 100"
  shows "\<exists>d1 d2. get_dew_point_f t1 rh = Some d1 \<and> get_dew_point_f t2 rh = Some d2 \<and> d1 < d2"
proof -
  have p1: "0 < dew_denominator t1 rh" using a by (intro dew_denominator_pos) auto
  have p2: "0 < dew_denominator t2 rh" using a by (intro dew_denominator_pos) auto
  have "dew_A * dew_B / (dew_B + (t2 - 32) * 5 / 9) < dew_A * dew_B / (dew_B + (t1 - 32) * 5 / 9)"
  proof (intro divide_strict_left_mono)
    show "dew_B + (t1 - 32) * 5 / 9 < dew_B + (t2 - 32) * 5 / 9" using a(2) by simp
    show "0 < dew_A * dew_B" by (rule dew_AB_pos)
    have "0 < dew_B + (t1 - 32) * 5 / 9" "0 < dew_B + (t2 - 32) * 5 / 9"
      using a(1,2) by (simp_all only: celsius_pos)
    then show "0 < (dew_B + (t2 - 32) * 5 / 9) * (dew_B + (t1 - 32) * 5 / 9)"
      by (intro mult_pos_pos)
  qed
  then have "dew_denominator t2 rh < dew_denominator t1 rh" by (simp add: dew_denominator_def)
  then have "dew_A * dew_B / dew_denominator t1 rh < dew_A * dew_B / dew_denominator t2 rh"
    using p1 p2 dew_AB_pos by (intro divide_strict_left_mono) (auto intro: mult_pos_pos)
  then show ?thesis
    using a by (simp add: get_dew_point_f_closed)
qed

lemma get_dew_point_f_mono_humidity:
  assumes a: "- 395.86 < t" "0 < rh1" "rh1 < rh2" "rh2 \<le> 100"
  shows "\<exists>d1 d2. get_dew_point_f t rh1 = Some d1 \<and> get_dew_point_f t rh2 = Some d2 \<and> d1 < d2"
proof -
  have p1: "0 < dew_denominator t rh1" using a by (intro dew_denominator_pos) auto
  have p2: "0 < dew_denominator t rh2" using a by (intro dew_denominator_pos) auto
  have "ln (rh1 / 100) < ln (rh2 / 100)" using a by simp
  then have "dew_denominator t rh2 < dew_denominator t rh1" by (simp add: dew_denominator_def)
  then have "dew_A * dew_B / dew_denominator t rh1 < dew_A * dew_B / dew_denominator t rh2"
    using p1 p2 dew_AB_pos by (intro divide_strict_left_mono) (auto intro: mult_pos_pos)
  then show ?thesis
    using a by (simp add: get_dew_point_f_closed)
qed

lemma get_dew_point_f_saturated:
  assumes "t \<noteq> - 395.86" shows "get_dew_point_f t 100 = Some t"
proof -
  define c where "c = dew_B + (t - 32) * 5 / 9"
  define u where "u = dew_A * dew_B / c"
  define a where "a = dew_A * ((t - 32) * 5 / 9) / c + ln (100 / 100)"
  have c: "c \<noteq> 0" using assms by (simp only: c_def celsius_zero) simp
  have tc: "(t - 32) * 5 / 9 = c - dew_B" by (simp add: c_def)
  have u: "u \<noteq> 0" using c dew_A_pos dew_B_pos by (simp add: u_def)
  have alpha: "dew_A - a = u"
    unfolding a_def tc u_def using magnus_alpha [of c dew_A dew_B 0] c by simp
  then have a: "a = dew_A - u" by simp
  have "dew_A * dew_B / u = c"
    using c dew_A_pos dew_B_pos by (simp add: u_def)
  then have r: "dew_B * a / u = c - dew_B"
    unfolding a using magnus_inverse [of u dew_B dew_A] u by simp
  have "get_dew_point_f t 100 =
          (if c = 0 \<or> (100::real) \<le> 0 then None
           else if dew_A - a = 0 then None
           else Some (dew_B * a / (dew_A - a) * 9 / 5 + 32))"
    unfolding c_def a_def by (rule get_dew_point_f_unfold)
  also have "\<dots> = Some (dew_B * a / u * 9 / 5 + 32)"
    unfolding alpha using c u by simp
  also have "\<dots> = Some ((c - dew_B) * 9 / 5 + 32)"
    by (simp only: r)
  also have "\<dots> = Some t"
    by (simp add: c_def field_simps)
  finally show ?thesis .
qed

text \<open>
  C7. Over the real numbers, for air temperatures above -395.86 degrees Fahrenheit
  (-237.7 degrees Celsius, where the formula has its pole) and relative humidities in
  (0, 100], the dew point is computed and is strictly increasing in the temperature and
  in the humidity; at a relative humidity of 100 it equals the temperature.
\<close>

theorem get_dew_point_f_monotone_saturated:
  "(- 395.86 < t1 \<and> t1 < t2 \<and> 0 < rh \<and> rh \<le> 100 \<longrightarrow>
      (\<exists>d1 d2. get_dew_point_f t1 rh = Some d1 \<and> get_dew_point_f t2 rh = Some d2 \<and> d1 < d2)) \<and>
   (- 395.86 < t \<and> 0 < rh1 \<and> rh1 < rh2 \<and> rh2 \<le> 100 \<longrightarrow>
      (\<exists>d1 d2. get_dew_point_f t rh1 = Some d1 \<and> get_dew_point_f t rh2 = Some d2 \<and> d1 < d2)) \<and>
   (t \<noteq> - 395.86 \<longrightarrow> get_dew_point_f t 100 = Some t)"
  using get_dew_point_f_mono_temperature [of t1 t2 rh]
    get_dew_point_f_mono_humidity [of t rh1 rh2] get_dew_point_f_saturated [of t]
  by blast

theorem get_dew_point_f_monotone_saturated_witness:
  "(\<exists>d1 d2. get_dew_point_f 50 60 = Some d1 \<and> get_dew_point_f 68 60 = Some d2 \<and> d1 < d2) \<and>
   (\<exists>d1 d2. get_dew_point_f 68 40 = Some d1 \<and> get_dew_point_f 68 80 = Some d2 \<and> d1 < d2) \<and>
   get_dew_point_f 68 100 = Some 68"
  using get_dew_point_f_monotone_saturated [of 50 68 60 68 40 80]
  by simp

text \<open>
  C9 fails on the code. Starting from an empty table, a first batch with the new
  description \<open>Sunny\<close> gives it id 0; a second batch with the new description
  \<open>Cloudy\<close> gives it id 0 again, the current maximum, where the claim gives 1. The
  icon table behaves in the same way.
\<close>

theorem add_new_forecast_duplicate_id:
  "add_new_forecast_descriptions
      [\<lparr>shortForecast = ''Sunny'', forecast_descriptions_id = None,
        icon = ''skc'', icon_id = None\<rparr>] []
     = (True, [(0, ''Sunny'')]) \<and>
   add_new_forecast_descriptions
      [\<lparr>shortForecast = ''Sunny'', forecast_descriptions_id = Some 0,
        icon = ''skc'', icon_id = Some 0\<rparr>,
       \<lparr>shortForecast = ''Cloudy'', forecast_descriptions_id = None,
        icon = ''ovc'', icon_id = None\<rparr>] [(0, ''Sunny'')]
     = (True, [(0, ''Sunny''), (0, ''Cloudy'')]) \<and>
   add_new_forecast_icons
      [\<lparr>shortForecast = ''Sunny'', forecast_descriptions_id = Some 0,
        icon = ''skc'', icon_id = Some 0\<rparr>,
       \<lparr>shortForecast = ''Cloudy'', forecast_descriptions_id = None,
        icon = ''ovc'', icon_id = None\<rparr>] [(0, ''skc'')]
     = (True, [(0, ''skc''), (0, ''ovc'')])"
  by (simp add: add_new_forecast_descriptions_def add_new_forecast_icons_def unique_def
      with_row_count_def col_max_def upt_rec)

lemma agg_max_bool:
  "agg_max cells = Some True \<longleftrightarrow> Some True \<in> set cells"
proof (cases "non_null cells = []")
  case True
  then have "\<forall>c \<in> set cells. c = None"
    by (auto simp: non_null_def filter_empty_conv)
  with True show ?thesis by (auto simp: agg_max_def)
next
  case False
  have s: "set (non_null cells) = {b. Some b \<in> set cells}"
    by (force simp: non_null_def image_iff)
  have "Max (set (non_null cells)) = True \<longleftrightarrow> True \<in> set (non_null cells)"
  proof
    assume "Max (set (non_null cells)) = True"
    then show "True \<in> set (non_null cells)"
      using Max_in [of "set (non_null cells)"] False by auto
  next
    assume "True \<in> set (non_null cells)"
    then have "True \<le> Max (set (non_null cells))" by (intro Max_ge) auto
    then show "Max (set (non_null cells)) = True" by simp
  qed
  with False s show ?thesis by (simp add: agg_max_def)
qed

lemma wind_scatter_style: "marker_style (wind_scatter (wind_agg (k, rows))) =
   (if \<exists>r \<in> set rows. PREDICTION r = Some True then Predicted_chartreuse else Observed_dodgerblue)"
  by (auto simp: wind_scatter_def wind_agg_def agg_max_bool image_iff)

lemma arctan2_pos: "0 < x \<Longrightarrow> arctan2 0 x = 0"
proof -
  assume "0 < x"
  then have "sgn (Complex x 0) = cis 0"
    by (simp add: sgn_eq complex_eq_iff cmod_def)
  then show ?thesis
    unfolding arctan2_def by (intro cis_Arg_unique) auto
qed

lemma circmean_350_10: "circmean [radians 350, radians 10] = 0"
proof -
  have a: "radians 350 = 2 * pi - radians 10" by (simp add: radians_def field_simps)
  have s: "sin (radians 350) + sin (radians 10) = 0" unfolding a by simp
  have c: "cos (radians 350) = cos (radians 10)" unfolding a by simp
  have "0 < cos (radians 10)"
    by (intro cos_gt_zero_pi) (simp_all add: radians_def field_simps)
  then have "arctan2 0 (cos (radians 10) + cos (radians 10)) = 0" by (intro arctan2_pos) simp
  then show ?thesis using s c by (simp add: circmean_def)
qed

lemma circmean_range: "0 \<le> circmean xs \<and> circmean xs < 2 * pi"
  using Arg_bounded [of "Complex (sum_list (map cos xs)) (sum_list (map sin xs))"]
  by (auto simp: circmean_def arctan2_def Let_def)

lemma sum_list_cis: "(\<Sum>x\<leftarrow>xs. cis x) = Complex (sum_list (map cos xs)) (sum_list (map sin xs))"
  by (induction xs) (auto simp: complex_eq_iff zero_complex.code)

lemma circmean_direction:
  assumes "(\<Sum>x\<leftarrow>xs. cis x) \<noteq> 0"
  shows "cis (circmean xs) = sgn (\<Sum>x\<leftarrow>xs. cis x)"
proof -
  have "cis (circmean xs) = cis (Arg (\<Sum>x\<leftarrow>xs. cis x))"
    by (simp add: circmean_def arctan2_def Let_def sum_list_cis cis_2pi flip: cis_mult)
  then show ?thesis using assms by (simp add: cis_Arg)
qed

lemma degrees_radians: "degrees (radians d) = d" "radians (degrees x) = x"
  by (simp_all add: degrees_def radians_def)

lemma make_wind_fig_traces:
  assumes "make_wind_fig now weather_df plot_start_date plot_end_date = Some fig"
  shows "traces fig =
           map (\<lambda>g. wind_scatter (wind_agg g))
             (groupby_dynamic
                (wind_gb_min (map DATE
                   (filter_weather_df_by_date now weather_df plot_start_date plot_end_date)))
                (sort_key DATE
                   (filter_weather_df_by_date now weather_df plot_start_date plot_end_date)))"
  using assms
  by (auto simp: make_wind_fig_def wind_buckets_def Let_def split: option.splits)

lemma agg_wind_direction_non_null:
  "agg_wind_direction (map Some ds) = Some (degrees (circmean (map radians ds)))"
  by (auto simp: agg_wind_direction_def non_null_def comp_def filter_id_conv)

lemma resultant_350_10: "(\<Sum>d\<leftarrow>[350, 10]. cis (radians d)) \<noteq> 0"
proof -
  have a: "radians 350 = 2 * pi - radians 10" by (simp add: radians_def field_simps)
  have "0 < cos (radians 10)"
    by (intro cos_gt_zero_pi) (simp_all add: radians_def field_simps)
  then have "Re (cis (radians 350) + cis (radians 10)) \<noteq> 0"
    unfolding a by simp
  moreover have "Re (\<Sum>d\<leftarrow>[350, 10]. cis (radians d)) = Re (cis (radians 350) + cis (radians 10))"
    by simp
  ultimately show ?thesis
    by (metis zero_complex.sel(1))
qed

lemma circmean_350: "circmean [radians 350] = radians 350"
proof -
  have b: "- pi < radians 350 - 2 * pi" "radians 350 - 2 * pi \<le> pi" "radians 350 - 2 * pi < 0"
    using pi_gt_zero by (simp_all add: radians_def field_simps)
  have "sgn (Complex (cos (radians 350)) (sin (radians 350))) = cis (radians 350 - 2 * pi)"
    by (simp add: sgn_eq complex_eq_iff cmod_def cos_diff sin_diff)
  then have "Arg (Complex (cos (radians 350)) (sin (radians 350))) = radians 350 - 2 * pi"
    using b by (intro cis_Arg_unique) auto
  then show ?thesis
    using b by (simp add: circmean_def arctan2_def)
qed

text \<open>
  C6, as amended. For every wind bucket whose rows all have a direction, the direction
  of the bucket, which is the angle of its marker, is the circular mean of the
  directions of its rows: an angle in [0, 360) whose unit vector points along the sum
  of the unit vectors of the directions, whenever that sum is not zero. For the
  directions 350 and 10 it is 0, where the linear mean is 180. A bucket that holds a
  row with a null direction has no direction. The arithmetic is read over the real
  numbers.
\<close>

theorem wind_direction_circular_mean:
  "(map WIND_DIRECTION rows = map Some ds \<longrightarrow>
      (\<exists>theta. bucket_WIND_DIRECTION (wind_agg (k, rows)) = Some theta \<and>
         marker_angle (wind_scatter (wind_agg (k, rows))) = Some theta \<and>
         theta = degrees (circmean (map radians ds)) \<and>
         0 \<le> theta \<and> theta < 360 \<and>
         ((\<Sum>d\<leftarrow>ds. cis (radians d)) \<noteq> 0 \<longrightarrow>
            cis (radians theta) = sgn (\<Sum>d\<leftarrow>ds. cis (radians d))) \<and>
         (ds = [350, 10] \<longrightarrow> theta = 0 \<and> linear_mean ds = 180))) \<and>
   (None \<in> set (map WIND_DIRECTION rows) \<longrightarrow>
      bucket_WIND_DIRECTION (wind_agg (k, rows)) = None \<and>
      marker_angle (wind_scatter (wind_agg (k, rows))) = None)"
proof (intro conjI impI)
  assume rows: "map WIND_DIRECTION rows = map Some ds"
  let ?theta = "degrees (circmean (map radians ds))"
  have b: "bucket_WIND_DIRECTION (wind_agg (k, rows)) = Some ?theta"
    by (simp add: wind_agg_def rows agg_wind_direction_non_null)
  have m: "marker_angle (wind_scatter (wind_agg (k, rows))) = Some ?theta"
    using b by (simp add: wind_scatter_def)
  have lo: "0 \<le> ?theta"
    using circmean_range [of "map radians ds"] by (simp add: degrees_def)
  have hi: "?theta < 360"
    using circmean_range [of "map radians ds"] by (simp add: degrees_def field_simps)
  have dir: "cis (radians ?theta) = sgn (\<Sum>d\<leftarrow>ds. cis (radians d))"
    if "(\<Sum>d\<leftarrow>ds. cis (radians d)) \<noteq> 0"
    using that circmean_direction [of "map radians ds"]
    by (simp add: degrees_radians comp_def)
  have ex: "?theta = 0 \<and> linear_mean ds = 180" if "ds = [350, 10]"
    using that by (simp add: circmean_350_10 degrees_def linear_mean_def)
  from b m lo hi dir ex
  show "\<exists>theta. bucket_WIND_DIRECTION (wind_agg (k, rows)) = Some theta \<and>
         marker_angle (wind_scatter (wind_agg (k, rows))) = Some theta \<and>
         theta = degrees (circmean (map radians ds)) \<and>
         0 \<le> theta \<and> theta < 360 \<and>
         ((\<Sum>d\<leftarrow>ds. cis (radians d)) \<noteq> 0 \<longrightarrow>
            cis (radians theta) = sgn (\<Sum>d\<leftarrow>ds. cis (radians d))) \<and>
         (ds = [350, 10] \<longrightarrow> theta = 0 \<and> linear_mean ds = 180)"
    by blast
next
  assume n: "None \<in> set (map WIND_DIRECTION rows)"
  then show "bucket_WIND_DIRECTION (wind_agg (k, rows)) = None"
    by (simp add: wind_agg_def agg_wind_direction_def)
  then show "marker_angle (wind_scatter (wind_agg (k, rows))) = None"
    by (simp add: wind_scatter_def)
qed

theorem wind_direction_circular_mean_witness:
  "map WIND_DIRECTION example_wind_df = map Some [350, 10] \<and>
   bucket_WIND_DIRECTION (wind_agg (1686830400000000, example_wind_df)) = Some 0 \<and>
   marker_angle (wind_scatter (wind_agg (1686830400000000, example_wind_df))) = Some 0 \<and>
   (\<Sum>d\<leftarrow>[350, 10]. cis (radians d)) \<noteq> 0 \<and>
   cis (radians 0) = sgn (\<Sum>d\<leftarrow>[350, 10]. cis (radians d)) \<and>
   None \<in> set (map WIND_DIRECTION example_null_direction_rows) \<and>
   bucket_WIND_DIRECTION (wind_agg (1686830400000000, example_null_direction_rows)) = None"
proof -
  have r: "map WIND_DIRECTION example_wind_df = map Some [350, 10]"
    by (simp add: example_wind_df_def null_row_def)
  have n: "None \<in> set (map WIND_DIRECTION example_null_direction_rows)"
    by (simp add: example_null_direction_rows_def null_row_def)
  from r wind_direction_circular_mean [of example_wind_df "[350, 10]" 1686830400000000]
  obtain theta where
    t: "bucket_WIND_DIRECTION (wind_agg (1686830400000000, example_wind_df)) = Some theta"
      "marker_angle (wind_scatter (wind_agg (1686830400000000, example_wind_df))) = Some theta"
      "(\<Sum>d\<leftarrow>[350, 10]. cis (radians d)) \<noteq> 0 \<longrightarrow>
         cis (radians theta) = sgn (\<Sum>d\<leftarrow>[350, 10]. cis (radians d))"
      "theta = 0"
    by blast
  from n wind_direction_circular_mean [of example_null_direction_rows ds 1686830400000000]
  have "bucket_WIND_DIRECTION (wind_agg (1686830400000000, example_null_direction_rows)) = None"
    by blast
  with r n t resultant_350_10 show ?thesis by simp
qed

text \<open>
  C6, as stated, fails. In a bucket of two rows, one from 350 degrees and one with a
  null direction, the circular mean of the angles in the bucket is 350; the bucket
  gets no direction.
\<close>

theorem wind_direction_counterexample:
  "spec_bucket_direction example_null_direction_rows = Some 350 \<and>
   bucket_WIND_DIRECTION (wind_agg (1686830400000000, example_null_direction_rows)) = None"
proof -
  have "map WIND_DIRECTION example_null_direction_rows = [Some 350, None]"
    by (simp add: example_null_direction_rows_def null_row_def)
  then show ?thesis
    by (simp add: spec_bucket_direction_def wind_agg_def agg_wind_direction_def non_null_def
        circmean_350 degrees_radians)
qed

text \<open>
  C10. The provenance flag of a wind bucket is the maximum of the \<open>PREDICTION\<close> cells
  of its rows, nulls skipped. A bucket that holds a forecast row gets the predicted
  marker style, also when it holds observed rows; a bucket whose flags are all null
  gets the observed marker style. The markers of the figure are those of the buckets.
\<close>

theorem wind_bucket_provenance_style:
  "bucket_PREDICTION (wind_agg (k, rows)) = agg_max (map PREDICTION rows) \<and>
   ((\<exists>r \<in> set rows. PREDICTION r = Some True) \<longrightarrow>
      marker_style (wind_scatter (wind_agg (k, rows))) = Predicted_chartreuse) \<and>
   ((\<forall>r \<in> set rows. PREDICTION r = None) \<longrightarrow>
      marker_style (wind_scatter (wind_agg (k, rows))) = Observed_dodgerblue) \<and>
   (make_wind_fig now weather_df plot_start_date plot_end_date = Some fig \<longrightarrow>
      traces fig =
        map (\<lambda>g. wind_scatter (wind_agg g))
          (groupby_dynamic
             (wind_gb_min (map DATE
                (filter_weather_df_by_date now weather_df plot_start_date plot_end_date)))
             (sort_key DATE
                (filter_weather_df_by_date now weather_df plot_start_date plot_end_date))))"
proof (intro conjI impI)
  show "bucket_PREDICTION (wind_agg (k, rows)) = agg_max (map PREDICTION rows)"
    by (simp add: wind_agg_def)
  show "marker_style (wind_scatter (wind_agg (k, rows))) = Predicted_chartreuse"
    if "\<exists>r \<in> set rows. PREDICTION r = Some True"
    using that by (simp add: wind_scatter_style)
  show "marker_style (wind_scatter (wind_agg (k, rows))) = Observed_dodgerblue"
    if "\<forall>r \<in> set rows. PREDICTION r = None"
    using that by (simp add: wind_scatter_style)
  show "traces fig =
        map (\<lambda>g. wind_scatter (wind_agg g))
          (groupby_dynamic
             (wind_gb_min (map DATE
                (filter_weather_df_by_date now weather_df plot_start_date plot_end_date)))
             (sort_key DATE
                (filter_weather_df_by_date now weather_df plot_start_date plot_end_date)))"
    if "make_wind_fig now weather_df plot_start_date plot_end_date = Some fig"
    using that by (rule make_wind_fig_traces)
qed

lemma make_wind_fig_example:
  "make_wind_fig 1686830400500000 example_wind_df None None =
     Some \<lparr>yaxis_range = (0, 9), xaxis_range = (1686830430000000, 1686830460000000),
           traces = [\<lparr>marker_x = 1686830400000000, marker_y = Some 7,
                      marker_angle = Some 0, marker_style = Predicted_chartreuse\<rparr>]\<rparr>"
proof -
  have f: "filter_weather_df_by_date 1686830400500000 example_wind_df None None = example_wind_df"
    by (simp add: filter_weather_df_by_date_def default_plot_start_date_def
        default_plot_end_date_def replace_hms_def replace_hmsu_def dt_midnight_def
        dt_microsecond_def timedelta_days_def us_per_day_def us_per_second_def
        example_wind_df_def null_row_def)
  have g: "wind_gb_min (map DATE example_wind_df) = 15"
    by (simp add: wind_gb_min_def col_min_def col_max_def gb_min_of_delta_def
        us_per_second_def example_wind_df_def null_row_def)
  have b: "groupby_dynamic 15 (sort_key DATE example_wind_df) = [(1686830400000000, example_wind_df)]"
    by (simp add: groupby_dynamic_def window_start_def us_per_minute_def us_per_second_def
        example_wind_df_def null_row_def)
  have d: "agg_wind_direction (map WIND_DIRECTION example_wind_df) = Some 0"
    by (simp add: example_wind_df_def null_row_def agg_wind_direction_def non_null_def
        circmean_350_10 degrees_def)
  have m: "agg_max (map WIND_SPEED example_wind_df) = Some 7"
    "agg_max (map TEMP example_wind_df) = None"
    "agg_max (map PREDICTION example_wind_df) = Some True"
    by (auto simp: example_wind_df_def null_row_def agg_max_def non_null_def)
  have c: "col_min (map DATE example_wind_df) = Some 1686830430000000"
    "col_max (map DATE example_wind_df) = Some 1686830460000000"
    by (simp_all add: example_wind_df_def null_row_def col_min_def col_max_def)
  show ?thesis
    unfolding make_wind_fig_def Let_def f g wind_buckets_def b
    by (simp add: m c d wind_agg_def wind_scatter_def WIND_PLOT_PADDING_def)
qed

theorem wind_bucket_provenance_style_witness:
  "(\<exists>r \<in> set example_wind_df. PREDICTION r = Some True) \<and>
   marker_style (wind_scatter (wind_agg (1686830400000000, example_wind_df))) = Predicted_chartreuse \<and>
   PREDICTION (hd example_wind_df) = None \<and>
   marker_style (wind_scatter (wind_agg (1686830400000000, [hd example_wind_df]))) = Observed_dodgerblue \<and>
   (\<exists>fig. make_wind_fig 1686830400500000 example_wind_df None None = Some fig \<and>
      map marker_style (traces fig) = [Predicted_chartreuse])"
proof -
  have p: "\<exists>r \<in> set example_wind_df. PREDICTION r = Some True"
    by (simp add: example_wind_df_def null_row_def)
  have o: "\<forall>r \<in> set [hd example_wind_df]. PREDICTION r = None"
    by (simp add: example_wind_df_def null_row_def)
  from p wind_bucket_provenance_style [of 1686830400000000 example_wind_df]
  have 1: "marker_style (wind_scatter (wind_agg (1686830400000000, example_wind_df))) = Predicted_chartreuse"
    by blast
  from o wind_bucket_provenance_style [of 1686830400000000 "[hd example_wind_df]"]
  have 2: "marker_style (wind_scatter (wind_agg (1686830400000000, [hd example_wind_df]))) = Observed_dodgerblue"
    by blast
  have 3: "\<exists>fig. make_wind_fig 1686830400500000 example_wind_df None None = Some fig \<and>
      map marker_style (traces fig) = [Predicted_chartreuse]"
    by (rule exI, rule conjI, rule make_wind_fig_example) simp
  have o': "PREDICTION (hd example_wind_df) = None"
    using o by simp
  from p o' 1 2 3 show ?thesis by blast
qed

lemma non_null_set: "set (non_null cells) = {v. Some v \<in> set cells}"
  by (force simp: non_null_def image_iff)

lemma agg_max_in: "agg_max cells = Some v \<Longrightarrow> Some v \<in> set cells"
proof -
  assume a: "agg_max cells = Some v"
  then have ne: "non_null cells \<noteq> []" and v: "v = Max (set (non_null cells))"
    by (auto simp: agg_max_def split: if_splits)
  from ne have "Max (set (non_null cells)) \<in> set (non_null cells)"
    by (intro Max_in) auto
  with v show ?thesis by (simp add: non_null_set)
qed

lemma agg_min_in: "agg_min cells = Some v \<Longrightarrow> Some v \<in> set cells"
proof -
  assume a: "agg_min cells = Some v"
  then have ne: "non_null cells \<noteq> []" and v: "v = Min (set (non_null cells))"
    by (auto simp: agg_min_def split: if_splits)
  from ne have "Min (set (non_null cells)) \<in> set (non_null cells)"
    by (intro Min_in) auto
  with v show ?thesis by (simp add: non_null_set)
qed

lemma hl_value_in_group:
  assumes "hl_value (high_low_agg weather_df day) a = Some v"
  shows "\<exists>r \<in> set weather_df. dt_day (DATE r) = day \<and> HIGH_LOW_ALIAS_COL a r = Some v"
proof (cases a)
  case High_Temp
  with assms have "Some v \<in> set (map TEMP (filter (\<lambda>r. dt_day (DATE r) = day) weather_df))"
    by (intro agg_max_in) (simp add: high_low_agg_def Let_def)
  with High_Temp show ?thesis by auto
next
  case Low_Temp
  with assms have "Some v \<in> set (map TEMP (filter (\<lambda>r. dt_day (DATE r) = day) weather_df))"
    by (intro agg_min_in) (simp add: high_low_agg_def Let_def)
  with Low_Temp show ?thesis by auto
next
  case High_Windspeed
  with assms have "Some v \<in> set (map WIND_SPEED (filter (\<lambda>r. dt_day (DATE r) = day) weather_df))"
    by (intro agg_max_in) (simp add: high_low_agg_def Let_def)
  with High_Windspeed show ?thesis by auto
qed

lemma extremum_found_high_low_agg:
  "extremum_found weather_df (high_low_agg weather_df day) keys"
proof -
  have "this_df weather_df day a v \<noteq> []"
    if "hl_value (high_low_agg weather_df day) a = Some v" for a v
    using hl_value_in_group [OF that] by (auto simp: this_df_def filter_empty_conv)
  moreover have "hl_DATE (high_low_agg weather_df day) = day"
    by (simp add: high_low_agg_def Let_def)
  ultimately show ?thesis by (simp add: extremum_found_def)
qed

lemma add_annotation_dict_get:
  assumes "this_df weather_df day a v = r # rs"
  shows "\<exists>d'. add_annotation weather_df day a v d = Some d' \<and>
           (\<forall>b. dict_get d' b = dict_get d b @ (if a = b then [(DATE r, v)] else []))"
  using assms by (cases "d a") (auto simp: add_annotation_def dict_get_def)

lemma anno_type_loop_dict_get:
  assumes "extremum_found weather_df row keys"
  shows "\<exists>d'. anno_type_loop weather_df row keys d = Some d' \<and>
           (\<forall>b. dict_get d' b =
              dict_get d b @ concat (map (\<lambda>a. if a = b then anno_points weather_df row a else []) keys))"
  using assms
proof (induction keys arbitrary: d)
  case Nil
  then show ?case by simp
next
  case (Cons a keys)
  then have rest: "extremum_found weather_df row keys"
    by (simp add: extremum_found_def)
  show ?case
  proof (cases "hl_value row a")
    case None
    then have p: "anno_points weather_df row a = []"
      by (simp add: anno_points_def)
    from Cons.IH [OF rest, of d] None show ?thesis
      by (auto simp: p)
  next
    case (Some v)
    with Cons.prems obtain r rs where t: "this_df weather_df (hl_DATE row) a v = r # rs"
      by (auto simp: extremum_found_def neq_Nil_conv)
    from add_annotation_dict_get [OF t, of d] obtain d1 where
      d1: "add_annotation weather_df (hl_DATE row) a v d = Some d1"
      and g1: "\<And>b. dict_get d1 b = dict_get d b @ (if a = b then [(DATE r, v)] else [])"
      by blast
    from Cons.IH [OF rest, of d1] obtain d2 where
      d2: "anno_type_loop weather_df row keys d1 = Some d2"
      and g2: "\<And>b. dict_get d2 b =
          dict_get d1 b @ concat (map (\<lambda>a. if a = b then anno_points weather_df row a else []) keys)"
      by blast
    have p: "anno_points weather_df row a = [(DATE r, v)]"
      by (simp add: anno_points_def Some t)
    show ?thesis
      using Some d1 d2 by (simp add: g1 g2 p)
  qed
qed

lemma concat_anno_types:
  "concat (map (\<lambda>a. if a = b then f a else []) anno_types) = f b"
  by (cases b) (simp_all add: anno_types_def)

lemma row_loop_dict_get:
  assumes "\<forall>row \<in> set rows. extremum_found weather_df row anno_types"
  shows "\<exists>d'. row_loop weather_df rows d = Some d' \<and>
           (\<forall>b. dict_get d' b = dict_get d b @ concat (map (\<lambda>row. anno_points weather_df row b) rows))"
  using assms
proof (induction rows arbitrary: d)
  case Nil
  then show ?case by simp
next
  case (Cons row rows)
  from Cons.prems have "extremum_found weather_df row anno_types" by simp
  from anno_type_loop_dict_get [OF this, of d] obtain d1 where
    d1: "anno_type_loop weather_df row anno_types d = Some d1"
    and g1: "\<And>b. dict_get d1 b = dict_get d b @ anno_points weather_df row b"
    by (auto simp: concat_anno_types)
  from Cons.prems have "\<forall>row \<in> set rows. extremum_found weather_df row anno_types" by simp
  from Cons.IH [OF this, of d1] obtain d2 where
    d2: "row_loop weather_df rows d1 = Some d2"
    and g2: "\<And>b. dict_get d2 b = dict_get d1 b @ concat (map (\<lambda>row. anno_points weather_df row b) rows)"
    by blast
  show ?case using d1 d2 by (simp add: g1 g2)
qed

lemma annotations_of_by_day_of_month:
  "annotations_of weather_df b =
     Some (concat (map (\<lambda>day. anno_points weather_df (high_low_agg weather_df day) b)
                       (remdups (map (\<lambda>r. dt_day (DATE r)) weather_df))))"
proof -
  have "\<forall>row \<in> set (high_low_df weather_df). extremum_found weather_df row anno_types"
    by (auto simp: high_low_df_def extremum_found_high_low_agg)
  from row_loop_dict_get [OF this, of Map.empty] obtain d' where
    "row_loop weather_df (high_low_df weather_df) Map.empty = Some d'"
    "\<And>b. dict_get d' b = concat (map (\<lambda>row. anno_points weather_df row b) (high_low_df weather_df))"
    by (auto simp: dict_get_def)
  then show ?thesis
    by (simp add: annotations_of_def make_high_low_annotations_dict_def high_low_df_def comp_def)
qed

lemma remdups_map_inj_on:
  assumes "inj_on h (f ` set xs)"
  shows "remdups (map (\<lambda>x. h (f x)) xs) = map h (remdups (map f xs))"
  using assms
proof (induction xs)
  case Nil
  then show ?case by simp
next
  case (Cons x xs)
  then have inj: "inj_on h (f ` set xs)" and
    mem: "h (f x) \<in> (\<lambda>x. h (f x)) ` set xs \<longleftrightarrow> f x \<in> f ` set xs"
    by (auto simp: inj_on_def)
  with Cons.IH show ?case by simp
qed

lemma find_filter: "find P xs = (case filter P xs of [] \<Rightarrow> None | x # _ \<Rightarrow> Some x)"
  by (induction xs) auto

lemma map_filter_concat:
  "List.map_filter f xs = concat (map (\<lambda>x. case f x of None \<Rightarrow> [] | Some y \<Rightarrow> [y]) xs)"
  by (induction xs) (auto split: option.splits)

lemma day_group_is_day_rows:
  assumes "days_distinct weather_df" "date \<in> (\<lambda>r. dt_date (DATE r)) ` set weather_df"
  shows "filter (\<lambda>r. dt_day (DATE r) = day_of_month date) weather_df = day_rows weather_df date"
  unfolding day_rows_def
proof (rule filter_cong [OF refl])
  fix r assume "r \<in> set weather_df"
  with assms show "(dt_day (DATE r) = day_of_month date) = (dt_date (DATE r) = date)"
    by (auto simp: days_distinct_def dt_day_def inj_on_def)
qed

lemma anno_points_spec:
  assumes "days_distinct weather_df" "date \<in> (\<lambda>r. dt_date (DATE r)) ` set weather_df"
  shows "anno_points weather_df (high_low_agg weather_df (day_of_month date)) b =
           (case spec_annotation_first weather_df b date of None \<Rightarrow> [] | Some p \<Rightarrow> [p])"
proof -
  note g = day_group_is_day_rows [OF assms]
  have v: "hl_value (high_low_agg weather_df (day_of_month date)) b =
             extremum b (day_rows weather_df date)"
    by (cases b) (simp_all add: high_low_agg_def Let_def g)
  have t: "this_df weather_df (day_of_month date) b v =
             filter (\<lambda>r. HIGH_LOW_ALIAS_COL b r = Some v) (day_rows weather_df date)" for v
    unfolding g [symmetric] this_df_def by (simp add: conj_commute)
  have d: "hl_DATE (high_low_agg weather_df (day_of_month date)) = day_of_month date"
    by (simp add: high_low_agg_def Let_def)
  show ?thesis
    by (simp add: anno_points_def spec_annotation_first_def v t d find_filter
        split: option.splits list.splits)
qed

lemma example_tie_df_dates:
  "map (\<lambda>r. dt_date (DATE r)) example_tie_df = [19524, 19523, 19523]"
  by (simp add: example_tie_df_def null_row_def dt_date_def us_per_day_def us_per_second_def)

lemma example_tie_df_day_rows:
  "day_rows example_tie_df 19524 = [(null_row 1686906000000000)\<lparr>TEMP := Some 25\<rparr>]"
  "day_rows example_tie_df 19523 =
     [(null_row 1686830400000000)\<lparr>TEMP := Some 20\<rparr>,
      (null_row 1686816000000000)\<lparr>TEMP := Some 20\<rparr>]"
  by (simp_all add: day_rows_def example_tie_df_def null_row_def dt_date_def us_per_day_def
      us_per_second_def)

lemma example_tie_df_first:
  "spec_annotations spec_annotation_first example_tie_df High_Temp =
     [(1686906000000000, 25), (1686830400000000, 20)]"
  by (simp add: spec_annotations_def example_tie_df_dates
      spec_annotation_first_def example_tie_df_day_rows agg_max_def non_null_def null_row_def)

lemma day_of_month_examples: "day_of_month 19523 = 15" "day_of_month 19524 = 16"
  by code_simp+

lemma example_tie_df_distinct: "days_distinct example_tie_df"
proof -
  have "(\<lambda>r. dt_date (DATE r)) ` set example_tie_df = set [19524, 19523, 19523]"
    unfolding example_tie_df_dates [symmetric] by simp
  then show ?thesis
    by (simp add: days_distinct_def inj_on_def day_of_month_examples)
qed

text \<open>
  C1, as amended. For a series in which different calendar dates have different days of
  the month, the aggregation succeeds and gives, for each category, one annotation for
  each calendar day on which the category has an extremum (a maximum temperature, a
  minimum temperature, a maximum wind speed), in the order in which the days first
  occur; the annotation carries the extremum and the timestamp of the first row of the
  series, in the order of its rows, that has this value on that day.
\<close>

theorem high_low_annotations_first_row:
  assumes "days_distinct weather_df"
  shows "annotations_of weather_df anno_type =
           Some (spec_annotations spec_annotation_first weather_df anno_type)"
proof -
  let ?dates = "remdups (map (\<lambda>r. dt_date (DATE r)) weather_df)"
  have "remdups (map (\<lambda>r. dt_day (DATE r)) weather_df) = map day_of_month ?dates"
    using assms unfolding dt_day_def days_distinct_def by (rule remdups_map_inj_on)
  then have "annotations_of weather_df anno_type =
      Some (concat (map (\<lambda>date. anno_points weather_df
                           (high_low_agg weather_df (day_of_month date)) anno_type) ?dates))"
    by (simp add: annotations_of_by_day_of_month comp_def)
  also have "map (\<lambda>date. anno_points weather_df
                  (high_low_agg weather_df (day_of_month date)) anno_type) ?dates =
             map (\<lambda>date. case spec_annotation_first weather_df anno_type date of
                           None \<Rightarrow> [] | Some p \<Rightarrow> [p]) ?dates"
    by (rule map_cong [OF refl]) (simp add: anno_points_spec [OF assms])
  finally show ?thesis
    by (simp add: spec_annotations_def map_filter_concat)
qed

theorem high_low_annotations_first_row_witness:
  "days_distinct example_tie_df \<and>
   annotations_of example_tie_df High_Temp =
     Some [(1686906000000000, 25), (1686830400000000, 20)]"
  using high_low_annotations_first_row [OF example_tie_df_distinct, of High_Temp]
    example_tie_df_distinct
  by (simp add: example_tie_df_first)

text \<open>
  Where two calendar dates share a day of the month the condition fails and the group
  is that of the day of the month: the rows of 2023-06-15 and 2023-07-15 give one
  annotation, for the higher of the two temperatures.
\<close>

lemma high_low_day_of_month_group:
  "\<not> days_distinct example_two_month_df \<and>
   annotations_of example_two_month_df High_Temp = Some [(1689411600000000, 40)]"
  by code_simp

text \<open>
  C1, as stated, fails. On 2023-06-15 the maximum of 20 degrees occurs at 12:00 and at
  08:00, and the observed rows come latest first: the annotation of that day is stamped
  12:00, where the earliest occurrence is 08:00.
\<close>

theorem high_low_annotations_counterexample:
  "annotations_of example_tie_df High_Temp =
     Some [(1686906000000000, 25), (1686830400000000, 20)] \<and>
   spec_annotations spec_annotation_earliest example_tie_df High_Temp =
     [(1686906000000000, 25), (1686816000000000, 20)]"
  by code_simp

lemma strptime_strict_examples:
  "strptime_strict ''2023-01-15 18:00:00'' = Some 1673805600000000"
  "strptime_strict ''garbage'' = None"
  by code_simp+

lemma example_observation_log_read:
  "read_weather_observations strptime_strict central_standard_time example_utcnow
       (Some example_observation_log)
     = Some [\<lparr>o_DATE = 1673784000000000, o_TEMP = Some 31, o_DEWPOINT = None,
              o_WIND_SPEED = None, o_WIND_DIRECTION = None, o_GUST_SPEED = None,
              o_RAIN_HOURLY = None, o_RAIN_DAILIY = None, o_RAIN_EVENT = None\<rparr>]"
proof -
  have m: "agg_max (map obs_id example_observation_log) = Some 2"
    by (simp add: example_observation_log_def null_observation_def agg_max_def non_null_def)
  have f: "filter (id_recent example_observation_log) example_observation_log =
             example_observation_log"
    unfolding id_recent_def m
    by (simp add: example_observation_log_def null_observation_def)
  show ?thesis
    unfolding read_weather_observations_def option.case f
    by (simp add: example_observation_log_def null_observation_def datect_def
        strptime_strict_examples convert_time_zone_def central_standard_time_def
        in_last_3_days_def example_utcnow_def timedelta_days_def us_per_day_def
        us_per_second_def observation_to_row_def)
qed

lemma example_forecast_log_read:
  "read_weather_predictions central_standard_time example_utcnow (Some example_forecast_log)
     = Some [\<lparr>p_DATE = 1673787600000000, p_TEMP = None, p_DEWPOINT = None,
              p_WIND_SPEED = None, p_WIND_DIRECTION = None, p_PRECIP_PROB = None,
              p_PREDICTION = True\<rparr>]"
proof -
  have m: "agg_max (map forecast_updated_time example_forecast_log) = Some 1673804700000000"
    by (simp add: example_forecast_log_def null_forecast_def agg_max_def non_null_def)
  have t: "start_threshold example_utcnow = 1673805615000000"
    by (simp add: start_threshold_def example_utcnow_def timedelta_minutes_def dt_minute_def
        us_per_minute_def us_per_second_def)
  have f: "filter (forecast_kept example_utcnow example_forecast_log) example_forecast_log =
             [null_forecast 1673809200000000 1673804700000000]"
    unfolding forecast_kept_def m t
    by (simp add: example_forecast_log_def null_forecast_def)
  show ?thesis
    unfolding read_weather_predictions_def option.case f
    by (simp add: null_forecast_def forecast_to_row_def convert_time_zone_def
        central_standard_time_def us_per_second_def)
qed

lemma set_map_filter: "set (List.map_filter f xs) = {y. \<exists>x \<in> set xs. f x = Some y}"
  by (induction xs) (auto split: option.splits)


lemma read_weather_predictions_flag:
  assumes "read_weather_predictions utc_offset utcnow predictions_csv = Some predictions_df"
    and "r \<in> set predictions_df"
  shows "p_PREDICTION r = True"
proof -
  from assms obtain f where "forecast_to_row utc_offset f = Some r"
    by (auto simp: read_weather_predictions_def set_map_filter split: option.splits)
  then show ?thesis
    by (auto simp: forecast_to_row_def split: option.splits)
qed

text \<open>
  C2. When both readers return a table, the merge returns a series whose row count is
  the sum of the two row counts: first the observation rows, each with a null
  \<open>PREDICTION\<close> flag and a null \<open>PRECIP_PROB\<close>, then the forecast rows, each with the flag
  true and null gust and rain columns; the shared columns are carried over.
\<close>

theorem make_weather_df_merge:
  assumes "read_weather_observations strptime utc_offset utcnow observations_csv = Some observation_df"
    and "read_weather_predictions utc_offset utcnow predictions_csv = Some predictions_df"
  shows "\<exists>weather_df.
           make_weather_df strptime utc_offset utcnow observations_csv predictions_csv = Some weather_df \<and>
           length weather_df = length observation_df + length predictions_df \<and>
           (\<forall>i < length observation_df.
              PREDICTION (weather_df ! i) = None \<and> PRECIP_PROB (weather_df ! i) = None \<and>
              DATE (weather_df ! i) = o_DATE (observation_df ! i) \<and>
              TEMP (weather_df ! i) = o_TEMP (observation_df ! i) \<and>
              GUST_SPEED (weather_df ! i) = o_GUST_SPEED (observation_df ! i) \<and>
              RAIN_DAILIY (weather_df ! i) = o_RAIN_DAILIY (observation_df ! i)) \<and>
           (\<forall>j < length predictions_df.
              PREDICTION (weather_df ! (length observation_df + j)) = Some True \<and>
              GUST_SPEED (weather_df ! (length observation_df + j)) = None \<and>
              RAIN_HOURLY (weather_df ! (length observation_df + j)) = None \<and>
              RAIN_DAILIY (weather_df ! (length observation_df + j)) = None \<and>
              RAIN_EVENT (weather_df ! (length observation_df + j)) = None \<and>
              DATE (weather_df ! (length observation_df + j)) = p_DATE (predictions_df ! j) \<and>
              TEMP (weather_df ! (length observation_df + j)) = p_TEMP (predictions_df ! j) \<and>
              PRECIP_PROB (weather_df ! (length observation_df + j)) = p_PRECIP_PROB (predictions_df ! j))"
proof -
  let ?df = "concat_diagonal observation_df predictions_df"
  have m: "make_weather_df strptime utc_offset utcnow observations_csv predictions_csv = Some ?df"
    using assms by (simp add: make_weather_df_def)
  have l: "length ?df = length observation_df + length predictions_df"
    by (simp add: concat_diagonal_def)
  have o: "?df ! i = of_observation_row (observation_df ! i)" if "i < length observation_df" for i
    using that by (simp add: concat_diagonal_def nth_append)
  have p: "?df ! (length observation_df + j) = of_prediction_row (predictions_df ! j)"
    if "j < length predictions_df" for j
    using that by (simp add: concat_diagonal_def nth_append)
  have flag: "p_PREDICTION (predictions_df ! j) = True" if "j < length predictions_df" for j
    using read_weather_predictions_flag [OF assms(2)] that by simp
  show ?thesis
    using m l by (auto simp: o p flag of_observation_row_def of_prediction_row_def)
qed

theorem make_weather_df_merge_witness:
  "\<exists>weather_df.
     make_weather_df strptime_strict central_standard_time example_utcnow
       (Some example_observation_log) (Some example_forecast_log) = Some weather_df \<and>
     length weather_df = 2 \<and>
     PREDICTION (weather_df ! 0) = None \<and> PRECIP_PROB (weather_df ! 0) = None \<and>
     TEMP (weather_df ! 0) = Some 31 \<and>
     PREDICTION (weather_df ! 1) = Some True \<and> GUST_SPEED (weather_df ! 1) = None"
  using make_weather_df_merge [OF example_observation_log_read example_forecast_log_read]
  by auto

lemma start_threshold_eq:
  "start_threshold utcnow = top_of_hour utcnow + utcnow mod us_per_minute"
proof -
  have "utcnow mod (us_per_minute * 60) =
          us_per_minute * (utcnow div us_per_minute mod 60) + utcnow mod us_per_minute"
    by (rule zmod_zmult2_eq) simp
  moreover have "us_per_minute * 60 = 3600 * us_per_second"
    by (simp add: us_per_minute_def)
  ultimately show ?thesis
    by (simp add: start_threshold_def top_of_hour_def timedelta_minutes_def dt_minute_def
        mult.commute)
qed

lemma forecast_kept_eq:
  "forecast_kept utcnow predictions_lf f \<longleftrightarrow>
     latest_batch predictions_lf f \<and> starts_after (start_threshold utcnow) f"
  by (auto simp: forecast_kept_def latest_batch_def starts_after_def split: option.splits)

text \<open>
  C3, as amended. For every forecast log the reader returns exactly the rows of the
  latest batch (those whose \<open>forecast_updated_time\<close> is the maximum in the log) whose
  start time is strictly after a bound, converted to local time and sorted by start
  time; the bound lies within the first minute of the current hour, so that no row
  that starts at or before the top of the current hour, and no row of an older batch,
  is returned.
\<close>

theorem read_weather_predictions_latest_batch:
  "\<exists>bound. top_of_hour utcnow \<le> bound \<and> bound < top_of_hour utcnow + us_per_minute \<and>
     read_weather_predictions utc_offset utcnow (Some predictions_lf) =
       Some (sort_key p_DATE
              (List.map_filter (forecast_to_row utc_offset)
                 (filter (\<lambda>f. latest_batch predictions_lf f \<and> starts_after bound f)
                    predictions_lf)))"
proof -
  have "0 \<le> utcnow mod us_per_minute" "utcnow mod us_per_minute < us_per_minute"
    by (simp_all add: us_per_minute_def us_per_second_def)
  then have "top_of_hour utcnow \<le> start_threshold utcnow"
    "start_threshold utcnow < top_of_hour utcnow + us_per_minute"
    by (simp_all add: start_threshold_eq)
  moreover have "read_weather_predictions utc_offset utcnow (Some predictions_lf) =
       Some (sort_key p_DATE
              (List.map_filter (forecast_to_row utc_offset)
                 (filter (\<lambda>f. latest_batch predictions_lf f \<and>
                               starts_after (start_threshold utcnow) f)
                    predictions_lf)))"
  proof -
    have "forecast_kept utcnow predictions_lf =
            (\<lambda>f. latest_batch predictions_lf f \<and> starts_after (start_threshold utcnow) f)"
      by (rule ext) (rule forecast_kept_eq)
    then show ?thesis
      by (simp add: read_weather_predictions_def)
  qed
  ultimately show ?thesis by blast
qed

text \<open>
  C3, as stated, fails. At 18:30:15 UTC the latest batch holds the periods that start at
  18:00:00 and at 19:00:00: both start at or after the top of the current hour, and the
  reader returns the second only.
\<close>

theorem read_weather_predictions_counterexample:
  "filter (spec_forecast_kept example_utcnow example_forecast_log) example_forecast_log =
     [null_forecast 1673805600000000 1673804700000000,
      null_forecast 1673809200000000 1673804700000000] \<and>
   read_weather_predictions central_standard_time example_utcnow (Some example_forecast_log) =
     Some [\<lparr>p_DATE = 1673787600000000, p_TEMP = None, p_DEWPOINT = None,
            p_WIND_SPEED = None, p_WIND_DIRECTION = None, p_PRECIP_PROB = None,
            p_PREDICTION = True\<rparr>]"
proof -
  have m: "agg_max (map forecast_updated_time example_forecast_log) = Some 1673804700000000"
    by (simp add: example_forecast_log_def null_forecast_def agg_max_def non_null_def)
  have "filter (spec_forecast_kept example_utcnow example_forecast_log) example_forecast_log =
     [null_forecast 1673805600000000 1673804700000000,
      null_forecast 1673809200000000 1673804700000000]"
    unfolding spec_forecast_kept_def latest_batch_def m
    by (simp add: example_forecast_log_def null_forecast_def top_of_hour_def example_utcnow_def
        us_per_second_def)
  then show ?thesis
    by (simp add: example_forecast_log_read)
qed





end
